theory Spec2Isabelle
  imports Complex_Main "HOL-Library.Word"
begin

section \<open>The zipformer C API example (c-api-examples/zipformer-c-api.c)\<close>

text \<open>
  \<open>main\<close> talks to the recogniser only through the functions of the C API. The model
  takes the answers of those functions as an environment (\<open>c_api\<close>) and returns the exit
  status of \<open>main\<close> together with the calls it made, in program order. The structures
  are declared in \<open>c-api.h\<close>; the records below carry the fields \<open>main\<close> assigns, every
  other field is zeroed by \<open>memset\<close> and never touched again.
\<close>

text \<open>
  A call \<open>fprintf(stderr, format, args...)\<close> is recorded with its format string and its
  arguments, unformatted.
\<close>

datatype printf_arg = ArgStr string | ArgInt int

definition newline :: string where
  "newline = [CHR 0x0A]"

record SherpaOnnxOfflineTransducerModelConfig =
  encoder :: string
  decoder :: string
  joiner :: string

record SherpaOnnxOfflineModelConfig =
  transducer :: SherpaOnnxOfflineTransducerModelConfig
  tokens :: string
  num_threads_c :: int
  debug_c :: int
  provider :: string

record SherpaOnnxOfflineRecognizerConfig =
  model_config :: SherpaOnnxOfflineModelConfig
  decoding_method :: string

record SherpaOnnxWave =
  samples :: "real list"
  sample_rate :: int
  num_samples :: int

text \<open>Recognisers, streams and results are opaque handles; \<open>None\<close> is the NULL pointer.\<close>

type_synonym recognizer_ptr = nat
type_synonym stream_ptr = nat

record SherpaOnnxOfflineRecognizerResult =
  text_of :: string

record c_api =
  SherpaOnnxReadWave :: "string \<Rightarrow> SherpaOnnxWave option"
  SherpaOnnxCreateOfflineRecognizer ::
    "SherpaOnnxOfflineRecognizerConfig \<Rightarrow> recognizer_ptr option"
  SherpaOnnxCreateOfflineStream :: "recognizer_ptr \<Rightarrow> stream_ptr"
  SherpaOnnxGetOfflineStreamResult :: "stream_ptr \<Rightarrow> SherpaOnnxOfflineRecognizerResult"

datatype c_call =
    ReadWave string
  | Fprintf_stderr string "printf_arg list"
  | CreateOfflineRecognizer SherpaOnnxOfflineRecognizerConfig
  | FreeWave SherpaOnnxWave
  | CreateOfflineStream recognizer_ptr
  | AcceptWaveformOffline stream_ptr int "real list" int
  | DecodeOfflineStream recognizer_ptr stream_ptr
  | GetOfflineStreamResult stream_ptr
  | DestroyOfflineRecognizerResult SherpaOnnxOfflineRecognizerResult
  | DestroyOfflineStream stream_ptr
  | DestroyOfflineRecognizer recognizer_ptr

definition wav_filename :: string where
  "wav_filename = ''sherpa-onnx-zipformer-small-en-2023-06-26/test_wavs/0.wav''"

definition encoder_filename_c :: string where
  "encoder_filename_c = ''sherpa-onnx-zipformer-small-en-2023-06-26/encoder-epoch-99-avg-1.onnx''"

definition decoder_filename_c :: string where
  "decoder_filename_c = ''sherpa-onnx-zipformer-small-en-2023-06-26/decoder-epoch-99-avg-1.onnx''"

definition joiner_filename_c :: string where
  "joiner_filename_c = ''sherpa-onnx-zipformer-small-en-2023-06-26/joiner-epoch-99-avg-1.onnx''"

definition tokens_filename :: string where
  "tokens_filename = ''sherpa-onnx-zipformer-small-en-2023-06-26/tokens.txt''"

definition zipformer_config :: SherpaOnnxOfflineTransducerModelConfig where
  "zipformer_config =
     \<lparr>encoder = encoder_filename_c, decoder = decoder_filename_c, joiner = joiner_filename_c\<rparr>"

definition offline_model_config :: SherpaOnnxOfflineModelConfig where
  "offline_model_config =
     \<lparr>transducer = zipformer_config, tokens = tokens_filename, num_threads_c = 1,
      debug_c = 1, provider = ''cpu''\<rparr>"

definition recognizer_config :: SherpaOnnxOfflineRecognizerConfig where
  "recognizer_config =
     \<lparr>model_config = offline_model_config, decoding_method = ''greedy_search''\<rparr>"

text \<open>
  \<open>main\<close>: the first component is the value returned, the second the calls made. Each
  \<open>return\<close> of the source is one branch.
\<close>

definition main :: "c_api \<Rightarrow> int \<times> c_call list" where
  "main api =
     (case SherpaOnnxReadWave api wav_filename of
        None \<Rightarrow>
          (- 1, [ReadWave wav_filename,
                 Fprintf_stderr (''Failed to read %s'' @ newline) [ArgStr wav_filename]])
      | Some wave \<Rightarrow>
          (case SherpaOnnxCreateOfflineRecognizer api recognizer_config of
             None \<Rightarrow>
               (- 1, [ReadWave wav_filename,
                      CreateOfflineRecognizer recognizer_config,
                      Fprintf_stderr (''Please check your config!'' @ newline) [],
                      FreeWave wave])
           | Some recognizer \<Rightarrow>
               (let stream = SherpaOnnxCreateOfflineStream api recognizer;
                    result = SherpaOnnxGetOfflineStreamResult api stream
                in (0, [ReadWave wav_filename,
                        CreateOfflineRecognizer recognizer_config,
                        CreateOfflineStream recognizer,
                        AcceptWaveformOffline stream (sample_rate wave) (samples wave)
                          (num_samples wave),
                        DecodeOfflineStream recognizer stream,
                        GetOfflineStreamResult stream,
                        Fprintf_stderr (''Decoded text: %s'' @ newline) [ArgStr (text_of result)],
                        DestroyOfflineRecognizerResult result,
                        DestroyOfflineStream stream,
                        DestroyOfflineRecognizer recognizer,
                        FreeWave wave]))))"

text \<open>The calls that create a recogniser, and the calls that create or use a stream.\<close>

fun creates_recognizer :: "c_call \<Rightarrow> bool" where
  "creates_recognizer (CreateOfflineRecognizer _) = True"
| "creates_recognizer _ = False"

fun stream_or_decoding :: "c_call \<Rightarrow> bool" where
  "stream_or_decoding (CreateOfflineStream _) = True"
| "stream_or_decoding (AcceptWaveformOffline _ _ _ _) = True"
| "stream_or_decoding (DecodeOfflineStream _ _) = True"
| "stream_or_decoding (GetOfflineStreamResult _) = True"
| "stream_or_decoding (DestroyOfflineRecognizerResult _) = True"
| "stream_or_decoding (DestroyOfflineStream _) = True"
| "stream_or_decoding _ = False"

text \<open>Two environments, one for each failure path.\<close>

definition empty_wave :: SherpaOnnxWave where
  "empty_wave = \<lparr>samples = [], sample_rate = 16000, num_samples = 0\<rparr>"

definition api_no_wave :: c_api where
  "api_no_wave =
     \<lparr>SherpaOnnxReadWave = (\<lambda>_. None),
      SherpaOnnxCreateOfflineRecognizer = (\<lambda>_. Some 1),
      SherpaOnnxCreateOfflineStream = (\<lambda>_. 2),
      SherpaOnnxGetOfflineStreamResult = (\<lambda>_. \<lparr>text_of = []\<rparr>)\<rparr>"

definition api_no_recognizer :: c_api where
  "api_no_recognizer =
     \<lparr>SherpaOnnxReadWave = (\<lambda>_. Some empty_wave),
      SherpaOnnxCreateOfflineRecognizer = (\<lambda>_. None),
      SherpaOnnxCreateOfflineStream = (\<lambda>_. 2),
      SherpaOnnxGetOfflineStreamResult = (\<lambda>_. \<lparr>text_of = []\<rparr>)\<rparr>"

section \<open>The streaming LSTM transducer model (sherpa-onnx/csrc/online-lstm-transducer-model.cc)\<close>

subsection \<open>Outcomes and recorded calls\<close>

text \<open>
  A call returns a value, ends the process (\<open>exit\<close>), leaves by an exception of the
  tensor runtime, or has no defined behaviour in C++ (signed overflow of an \<open>int\<close>, an
  index out of range, a null pointer, \<open>atoi\<close> on a number that does not fit an \<open>int\<close>).
\<close>

datatype 'a outcome = Returns 'a | Exits int | Throws string | Undefined

fun bind_outcome :: "'a outcome \<Rightarrow> ('a \<Rightarrow> 'b outcome) \<Rightarrow> 'b outcome" where
  "bind_outcome (Returns x) f = f x"
| "bind_outcome (Exits n) f = Exits n"
| "bind_outcome (Throws e) f = Throws e"
| "bind_outcome Undefined f = Undefined"

subsection \<open>Integers of the C++ source\<close>

definition INT_MAX :: int where
  "INT_MAX = 2147483647"

definition INT_MIN :: int where
  "INT_MIN = - 2147483648"

text \<open>
  The dimensions are 32-bit \<open>int\<close>s: they are assigned from \<open>atoi\<close> and printed with
  \<open>%d\<close>, and \<open>kBatchSize\<close> is an \<open>int32_t\<close>. A product of two of them that leaves the
  range of \<open>int\<close> is a signed overflow.
\<close>

definition mul_int32 :: "int \<Rightarrow> int \<Rightarrow> int outcome" where
  "mul_int32 a b = (if INT_MIN \<le> a * b \<and> a * b \<le> INT_MAX then Returns (a * b) else Undefined)"

text \<open>Conversion of an \<open>int\<close> to \<open>size_t\<close> (64 bits, unsigned).\<close>

definition to_size_t :: "int \<Rightarrow> nat" where
  "to_size_t n = nat (n mod 2 ^ 64)"

subsection \<open>\<open>atoi\<close>\<close>

text \<open>
  \<open>atoi\<close> of the C library (ISO C 7.22.1): white space is skipped, an optional sign is
  read, then the longest run of decimal digits; no digit at all gives 0, the characters
  that follow the digits are ignored, and the behaviour is undefined when the number
  cannot be represented as an \<open>int\<close>.
\<close>

definition isspace :: "char \<Rightarrow> bool" where
  "isspace c = ((of_char c :: nat) \<in> set [32, 9, 10, 11, 12, 13])"

definition isdigit :: "char \<Rightarrow> bool" where
  "isdigit c = (48 \<le> (of_char c :: nat) \<and> (of_char c :: nat) \<le> 57)"

definition digit_value :: "char \<Rightarrow> int" where
  "digit_value c = int (of_char c) - 48"

fun digits_value :: "int \<Rightarrow> string \<Rightarrow> int" where
  "digits_value acc [] = acc"
| "digits_value acc (c # cs) =
     (if isdigit c then digits_value (acc * 10 + digit_value c) cs else acc)"

fun strtol_sign :: "string \<Rightarrow> bool \<times> string" where
  "strtol_sign [] = (False, [])"
| "strtol_sign (c # cs) =
     (if c = CHR ''-'' then (True, cs)
      else if c = CHR ''+'' then (False, cs)
      else (False, c # cs))"

definition atoi :: "string \<Rightarrow> int outcome" where
  "atoi nptr =
     (let (negative, digits) = strtol_sign (dropWhile isspace nptr);
          magnitude = digits_value 0 digits;
          number = (if negative then - magnitude else magnitude)
      in if INT_MIN \<le> number \<and> number \<le> INT_MAX then Returns number else Undefined)"

subsection \<open>Memory, vectors and tensors\<close>

text \<open>
  Memory is a set of blocks of 64-bit cells; a pointer is a block and an offset counted
  in cells. A \<open>std::vector<int64_t>\<close> owns one block and has a size. Reading \<open>n\<close> cells
  through a pointer is defined only inside the block.
\<close>

type_synonym int64_t = "64 word"

datatype block = Allocated nat | Local string

datatype pointer = Ptr block int

fun ptr_add :: "pointer \<Rightarrow> int \<Rightarrow> pointer" where
  "ptr_add (Ptr b i) n = Ptr b (i + n)"

type_synonym memory = "block \<Rightarrow> int64_t list option"

fun read_cells :: "memory \<Rightarrow> pointer \<Rightarrow> nat \<Rightarrow> int64_t list option" where
  "read_cells mem (Ptr b i) n =
     (case mem b of
        None \<Rightarrow> None
      | Some cells \<Rightarrow>
          if 0 \<le> i \<and> i + int n \<le> int (length cells)
          then Some (take n (drop (nat i) cells))
          else None)"

record vector_int64 =
  vbuf :: block
  vsize :: nat

definition vector_data :: "vector_int64 \<Rightarrow> pointer" where
  "vector_data v = Ptr (vbuf v) 0"

definition vector_elems :: "memory \<Rightarrow> vector_int64 \<Rightarrow> int64_t list option" where
  "vector_elems mem v = read_cells mem (vector_data v) (vsize v)"

text \<open>
  An \<open>Ort::Value\<close> is null (moved from), a float tensor that owns its elements (an
  element is \<open>None\<close> until it is written), or an \<open>int64\<close> tensor over a buffer of the
  caller: its shape, the pointer to the first element, and the number of elements.
\<close>

datatype Value =
    Null
  | FloatTensor "int list" "real option list"
  | Int64View "int list" pointer nat

fun tensor_shape :: "Value \<Rightarrow> int list option" where
  "tensor_shape Null = None"
| "tensor_shape (FloatTensor shape elems) = Some shape"
| "tensor_shape (Int64View shape p n) = Some shape"

fun tensor_int64 :: "memory \<Rightarrow> Value \<Rightarrow> int64_t list option" where
  "tensor_int64 mem (Int64View shape p n) = read_cells mem p n"
| "tensor_int64 mem _ = None"

fun tensor_float :: "Value \<Rightarrow> real option list" where
  "tensor_float (FloatTensor shape elems) = elems"
| "tensor_float _ = []"

text \<open>
  \<open>Ort::Value::CreateTensor(memory_info, p_data, p_data_element_count, shape,
  shape_len)\<close> wraps the buffer, and \<open>Ort::Value::CreateTensor<float>(allocator, shape,
  shape_len)\<close> allocates the elements, which the runtime refuses for a negative
  dimension. \<open>std::fill(first, first + n, v)\<close> writes \<open>n\<close> elements and must stay
  inside the tensor.
\<close>

definition CreateTensor :: "pointer \<Rightarrow> nat \<Rightarrow> int list \<Rightarrow> Value" where
  "CreateTensor p_data p_data_element_count shape = Int64View shape p_data p_data_element_count"

definition CreateTensor_float :: "int list \<Rightarrow> Value outcome" where
  "CreateTensor_float shape =
     (if list_ex (\<lambda>d. d < 0) shape then Throws ''negative dimension''
      else Returns (FloatTensor shape (replicate (nat (prod_list shape)) None)))"

fun std_fill :: "Value \<Rightarrow> int \<Rightarrow> real \<Rightarrow> Value outcome" where
  "std_fill (FloatTensor shape elems) n v =
     (if 0 \<le> n \<and> n \<le> int (length elems)
      then Returns (FloatTensor shape (replicate (nat n) (Some v) @ drop (nat n) elems))
      else Undefined)"
| "std_fill _ n v = Undefined"

subsection \<open>Sessions of the tensor runtime\<close>

record SessionOptions =
  intra_op_num_threads :: int
  inter_op_num_threads :: int

definition default_SessionOptions :: SessionOptions where
  "default_SessionOptions = \<lparr>intra_op_num_threads = 0, inter_op_num_threads = 0\<rparr>"

definition SetIntraOpNumThreads :: "int \<Rightarrow> SessionOptions \<Rightarrow> SessionOptions" where
  "SetIntraOpNumThreads n opts = opts\<lparr>intra_op_num_threads := n\<rparr>"

definition SetInterOpNumThreads :: "int \<Rightarrow> SessionOptions \<Rightarrow> SessionOptions" where
  "SetInterOpNumThreads n opts = opts\<lparr>inter_op_num_threads := n\<rparr>"

text \<open>
  What a model file holds, as far as this code looks at it: the names of the inputs and
  outputs, the custom metadata, the text \<open>PrintModelMetadata\<close> writes for it, and the
  graph, which maps input names, inputs and output names to the outputs or to an error.
\<close>

record onnx_model =
  input_names :: "string list"
  output_names :: "string list"
  custom_metadata :: "string \<Rightarrow> string option"
  printed_metadata :: string
  graph :: "string list \<Rightarrow> Value list \<Rightarrow> string list \<Rightarrow> string + Value list"

record Session =
  session_file :: string
  session_options :: SessionOptions
  session_model :: onnx_model

datatype event =
    Fprintf string "printf_arg list"
  | NewSession string SessionOptions
  | SessionRun string "string list" "Value list" "string list"

type_synonym 'a proc = "event list \<times> 'a outcome"

fun bind_proc :: "'a proc \<Rightarrow> ('a \<Rightarrow> 'b proc) \<Rightarrow> 'b proc" where
  "bind_proc (evs, Returns x) f = (evs @ fst (f x), snd (f x))"
| "bind_proc (evs, Exits n) f = (evs, Exits n)"
| "bind_proc (evs, Throws e) f = (evs, Throws e)"
| "bind_proc (evs, Undefined) f = (evs, Undefined)"

definition return_proc :: "'a \<Rightarrow> 'a proc" where
  "return_proc x = ([], Returns x)"

text \<open>
  \<open>Ort::Session(env, filename, sess_opts)\<close>: the files are an environment; a file that
  cannot be loaded is an exception. \<open>SHERPA_MAYBE_WIDE\<close> only changes the character
  width of the name.
\<close>

definition new_Session ::
  "(string \<Rightarrow> onnx_model option) \<Rightarrow> string \<Rightarrow> SessionOptions \<Rightarrow> Session proc" where
  "new_Session files filename opts =
     ([NewSession filename opts],
      case files filename of
        None \<Rightarrow> Throws ''Load model failed''
      | Some g \<Rightarrow>
          Returns \<lparr>session_file = filename, session_options = opts, session_model = g\<rparr>)"

definition GetInputNames :: "Session \<Rightarrow> string list" where
  "GetInputNames sess = input_names (session_model sess)"

definition GetOutputNames :: "Session \<Rightarrow> string list" where
  "GetOutputNames sess = output_names (session_model sess)"

definition Session_Run ::
  "Session \<Rightarrow> string list \<Rightarrow> Value list \<Rightarrow> string list \<Rightarrow> Value list proc" where
  "Session_Run sess in_names inputs out_names =
     ([SessionRun (session_file sess) in_names inputs out_names],
      case graph (session_model sess) in_names inputs out_names of
        Inl e \<Rightarrow> Throws e
      | Inr outputs \<Rightarrow> Returns outputs)"

subsection \<open>The model object\<close>

text \<open>
  The class and its configuration are declared in headers; the records carry the
  members this file reads or writes. A member \<open>x_\<close> of the class is the field \<open>x_m\<close>.
  A \<open>std::unique_ptr<Ort::Session>\<close> is an option.
\<close>

record OnlineTransducerModelConfig =
  encoder_filename :: string
  decoder_filename :: string
  joiner_filename :: string
  num_threads :: int
  debug :: bool

record OnlineLstmTransducerModel =
  config_m :: OnlineTransducerModelConfig
  sess_opts_m :: SessionOptions
  encoder_sess_m :: "Session option"
  decoder_sess_m :: "Session option"
  joiner_sess_m :: "Session option"
  encoder_input_names_m :: "string list"
  encoder_output_names_m :: "string list"
  decoder_input_names_m :: "string list"
  decoder_output_names_m :: "string list"
  joiner_input_names_m :: "string list"
  joiner_output_names_m :: "string list"
  num_encoder_layers_m :: int
  T_m :: int
  decode_chunk_len_m :: int
  rnn_hidden_size_m :: int
  d_model_m :: int
  context_size_m :: int
  vocab_size_m :: int

subsection \<open>Reading the metadata\<close>

text \<open>
  The macro \<open>SHERPA_ONNX_READ_META_DATA(dst, src_key)\<close>: the value returned is the one
  stored in \<open>dst\<close>.
\<close>

definition SHERPA_ONNX_READ_META_DATA ::
  "(string \<Rightarrow> string option) \<Rightarrow> string \<Rightarrow> int proc" where
  "SHERPA_ONNX_READ_META_DATA meta_data src_key =
     (case meta_data src_key of
        None \<Rightarrow>
          ([Fprintf (''%s does not exist in the metadata'' @ newline) [ArgStr src_key]],
           Exits (- 1))
      | Some v \<Rightarrow>
          (case atoi v of
             Returns dst \<Rightarrow>
               if dst \<le> 0
               then ([Fprintf (''Invalud value %d for %s'' @ newline) [ArgInt dst, ArgStr src_key]],
                     Exits (- 1))
               else ([], Returns dst)
           | Exits n \<Rightarrow> ([], Exits n)
           | Throws e \<Rightarrow> ([], Throws e)
           | Undefined \<Rightarrow> ([], Undefined)))"

definition print_debug :: "bool \<Rightarrow> string \<Rightarrow> Session \<Rightarrow> unit proc" where
  "print_debug dbg title sess =
     ((if dbg
       then [Fprintf (''%s'' @ newline)
               [ArgStr (title @ newline @ printed_metadata (session_model sess))]]
       else []),
      Returns ())"

definition InitEncoder ::
  "(string \<Rightarrow> onnx_model option) \<Rightarrow> string \<Rightarrow> OnlineLstmTransducerModel \<Rightarrow>
     OnlineLstmTransducerModel proc" where
  "InitEncoder files filename m =
     bind_proc (new_Session files filename (sess_opts_m m)) (\<lambda>sess.
       let m1 = m\<lparr>encoder_sess_m := Some sess,
                  encoder_input_names_m := GetInputNames sess,
                  encoder_output_names_m := GetOutputNames sess\<rparr>;
           meta_data = custom_metadata (session_model sess)
       in
       bind_proc (print_debug (debug (config_m m1)) ''---encoder---'' sess) (\<lambda>_.
       bind_proc (SHERPA_ONNX_READ_META_DATA meta_data ''num_encoder_layers'') (\<lambda>v1.
       bind_proc (SHERPA_ONNX_READ_META_DATA meta_data ''T'') (\<lambda>v2.
       bind_proc (SHERPA_ONNX_READ_META_DATA meta_data ''decode_chunk_len'') (\<lambda>v3.
       bind_proc (SHERPA_ONNX_READ_META_DATA meta_data ''rnn_hidden_size'') (\<lambda>v4.
       bind_proc (SHERPA_ONNX_READ_META_DATA meta_data ''d_model'') (\<lambda>v5.
       return_proc (m1\<lparr>num_encoder_layers_m := v1, T_m := v2, decode_chunk_len_m := v3,
                        rnn_hidden_size_m := v4, d_model_m := v5\<rparr>))))))))"

definition InitDecoder ::
  "(string \<Rightarrow> onnx_model option) \<Rightarrow> string \<Rightarrow> OnlineLstmTransducerModel \<Rightarrow>
     OnlineLstmTransducerModel proc" where
  "InitDecoder files filename m =
     bind_proc (new_Session files filename (sess_opts_m m)) (\<lambda>sess.
       let m1 = m\<lparr>decoder_sess_m := Some sess,
                  decoder_input_names_m := GetInputNames sess,
                  decoder_output_names_m := GetOutputNames sess\<rparr>;
           meta_data = custom_metadata (session_model sess)
       in
       bind_proc (print_debug (debug (config_m m1)) ''---decoder---'' sess) (\<lambda>_.
       bind_proc (SHERPA_ONNX_READ_META_DATA meta_data ''vocab_size'') (\<lambda>v1.
       bind_proc (SHERPA_ONNX_READ_META_DATA meta_data ''context_size'') (\<lambda>v2.
       return_proc (m1\<lparr>vocab_size_m := v1, context_size_m := v2\<rparr>)))))"

definition InitJoiner ::
  "(string \<Rightarrow> onnx_model option) \<Rightarrow> string \<Rightarrow> OnlineLstmTransducerModel \<Rightarrow>
     OnlineLstmTransducerModel proc" where
  "InitJoiner files filename m =
     bind_proc (new_Session files filename (sess_opts_m m)) (\<lambda>sess.
       let m1 = m\<lparr>joiner_sess_m := Some sess,
                  joiner_input_names_m := GetInputNames sess,
                  joiner_output_names_m := GetOutputNames sess\<rparr>
       in
       bind_proc (print_debug (debug (config_m m1)) ''---joiner---'' sess) (\<lambda>_.
       return_proc m1))"

text \<open>
  The constructor. The members start from their initialisers (no session, no names, the
  integers 0); the two setters run on \<open>sess_opts_\<close> before any session is opened.
\<close>

definition initial_members :: "OnlineTransducerModelConfig \<Rightarrow> OnlineLstmTransducerModel" where
  "initial_members config =
     \<lparr>config_m = config, sess_opts_m = default_SessionOptions,
      encoder_sess_m = None, decoder_sess_m = None, joiner_sess_m = None,
      encoder_input_names_m = [], encoder_output_names_m = [],
      decoder_input_names_m = [], decoder_output_names_m = [],
      joiner_input_names_m = [], joiner_output_names_m = [],
      num_encoder_layers_m = 0, T_m = 0, decode_chunk_len_m = 0, rnn_hidden_size_m = 0,
      d_model_m = 0, context_size_m = 0, vocab_size_m = 0\<rparr>"

definition OnlineLstmTransducerModel_new ::
  "(string \<Rightarrow> onnx_model option) \<Rightarrow> OnlineTransducerModelConfig \<Rightarrow>
     OnlineLstmTransducerModel proc" where
  "OnlineLstmTransducerModel_new files config =
     (let m0 = initial_members config;
          m1 = m0\<lparr>sess_opts_m := SetIntraOpNumThreads (num_threads config) (sess_opts_m m0)\<rparr>;
          m2 = m1\<lparr>sess_opts_m := SetInterOpNumThreads (num_threads config) (sess_opts_m m1)\<rparr>
      in
      bind_proc (InitEncoder files (encoder_filename config) m2) (\<lambda>m3.
      bind_proc (InitDecoder files (decoder_filename config) m3) (\<lambda>m4.
      InitJoiner files (joiner_filename config) m4)))"

subsection \<open>Recurrent states\<close>

text \<open>
  \<open>StackStates\<close> and \<open>UnStackStates\<close> as they stand: each prints \<open>implement me\<close> with its
  name and line; the first returns a tensor of no elements and empty shape over its local
  \<open>a\<close>, the second an empty vector.
\<close>

definition StackStates :: "Value list \<Rightarrow> Value proc" where
  "StackStates states =
     ([Fprintf (''implement me: %s:%d!'' @ newline) [ArgStr ''StackStates'', ArgInt 120]],
      Returns (CreateTensor (Ptr (Local ''a'') 0) 0 []))"

definition UnStackStates :: "Value \<Rightarrow> Value list proc" where
  "UnStackStates states =
     ([Fprintf (''implement me: %s:%d!'' @ newline) [ArgStr ''UnStackStates'', ArgInt 132]],
      Returns [])"

definition kBatchSize :: int where
  "kBatchSize = 1"

definition GetEncoderInitStates :: "OnlineLstmTransducerModel \<Rightarrow> Value list outcome" where
  "GetEncoderInitStates m =
     bind_outcome (CreateTensor_float [num_encoder_layers_m m, kBatchSize, d_model_m m]) (\<lambda>h0.
     bind_outcome (mul_int32 (num_encoder_layers_m m) kBatchSize) (\<lambda>lb.
     bind_outcome (mul_int32 lb (d_model_m m)) (\<lambda>h_count.
     bind_outcome (std_fill h0 h_count 0) (\<lambda>h.
     bind_outcome (CreateTensor_float [num_encoder_layers_m m, kBatchSize, rnn_hidden_size_m m]) (\<lambda>c0.
     bind_outcome (mul_int32 (num_encoder_layers_m m) kBatchSize) (\<lambda>lb'.
     bind_outcome (mul_int32 lb' (rnn_hidden_size_m m)) (\<lambda>c_count.
     bind_outcome (std_fill c0 c_count 0) (\<lambda>c.
     Returns [h, c]))))))))"

subsection \<open>Running the encoder\<close>

text \<open>
  \<open>RunEncoder\<close> moves \<open>features\<close>, \<open>states[0]\<close> and \<open>states[1]\<close> into the inputs, so the
  caller's vector holds null values afterwards: the first component of the result is that
  vector. \<open>Run\<close> reads as many input names as there are inputs. Indexing a vector outside
  its size is undefined.
\<close>

definition RunEncoder ::
  "OnlineLstmTransducerModel \<Rightarrow> Value \<Rightarrow> Value list \<Rightarrow>
     Value list \<times> (Value \<times> Value list) proc" where
  "RunEncoder m features states =
     (if length states < 2 then (states, [], Undefined)
      else
        let encoder_inputs = [features, states ! 0, states ! 1];
            states' = states[0 := Null, 1 := Null]
        in
        (states',
         case encoder_sess_m m of
           None \<Rightarrow> ([], Undefined)
         | Some sess \<Rightarrow>
             if length (encoder_input_names_m m) < length encoder_inputs then ([], Undefined)
             else
               bind_proc
                 (Session_Run sess (take (length encoder_inputs) (encoder_input_names_m m))
                    encoder_inputs (encoder_output_names_m m))
                 (\<lambda>encoder_out.
                    if length encoder_out < 3 then ([], Undefined)
                    else ([], Returns (encoder_out ! 0, [encoder_out ! 1, encoder_out ! 2])))))"

subsection \<open>The decoder input\<close>

definition BuildDecoderInput :: "OnlineLstmTransducerModel \<Rightarrow> vector_int64 \<Rightarrow> Value" where
  "BuildDecoderInput m hyp =
     CreateTensor
       (ptr_add (ptr_add (vector_data hyp) (int (vsize hyp))) (- context_size_m m))
       (to_size_t (context_size_m m))
       [1, context_size_m m]"

subsection \<open>Notions used to state the properties\<close>

text \<open>
  The value of a string of decimal digits, and what it means for a string to start with
  a decimal integer as \<open>atoi\<close> reads one: white space, an optional sign, and at least one
  digit.
\<close>

definition decimal_value :: "string \<Rightarrow> int" where
  "decimal_value ds = foldl (\<lambda>a c. a * 10 + digit_value c) 0 ds"

definition has_integer_prefix :: "string \<Rightarrow> bool" where
  "has_integer_prefix s =
     (\<exists>ws sg d rest. s = ws @ sg @ d # rest \<and> (\<forall>c \<in> set ws. isspace c) \<and>
        (sg = [] \<or> sg = ''+'' \<or> sg = ''-'') \<and> isdigit d)"

text \<open>
  The metadata value of a key as the constructor accepts it: present, and read by
  \<open>atoi\<close> as a positive \<open>int\<close>.
\<close>

definition positive_metadata :: "(string \<Rightarrow> string option) \<Rightarrow> string \<Rightarrow> int option" where
  "positive_metadata meta_data src_key =
     (case meta_data src_key of
        None \<Rightarrow> None
      | Some v \<Rightarrow> (case atoi v of Returns dst \<Rightarrow> if 0 < dst then Some dst else None | _ \<Rightarrow> None))"

text \<open>A dimension the constructor has stored: a positive \<open>int\<close>.\<close>

definition stored_dimension :: "int \<Rightarrow> bool" where
  "stored_dimension n = (0 < n \<and> n \<le> INT_MAX)"

text \<open>The options of the sessions opened in a list of recorded calls, and the runs in it.\<close>

fun opened_with :: "event list \<Rightarrow> (string \<times> SessionOptions) list" where
  "opened_with [] = []"
| "opened_with (NewSession filename opts # evs) = (filename, opts) # opened_with evs"
| "opened_with (_ # evs) = opened_with evs"

fun is_run :: "event \<Rightarrow> bool" where
  "is_run (SessionRun file in_names inputs out_names) = True"
| "is_run _ = False"

text \<open>The session options that carry the configured thread count in both places.\<close>

definition thread_options :: "OnlineTransducerModelConfig \<Rightarrow> SessionOptions" where
  "thread_options config =
     \<lparr>intra_op_num_threads = num_threads config, inter_op_num_threads = num_threads config\<rparr>"

fun is_fprintf :: "event \<Rightarrow> bool" where
  "is_fprintf (Fprintf format args) = True"
| "is_fprintf _ = False"

subsection \<open>Concrete inputs\<close>

definition example_config :: OnlineTransducerModelConfig where
  "example_config =
     \<lparr>encoder_filename = ''encoder.onnx'', decoder_filename = ''decoder.onnx'',
      joiner_filename = ''joiner.onnx'', num_threads = 2, debug = False\<rparr>"

text \<open>A model of 3 layers with \<open>d_model = 4\<close>, \<open>rnn_hidden_size = 8\<close> and \<open>context_size = 2\<close>.\<close>

definition example_model :: OnlineLstmTransducerModel where
  "example_model =
     (initial_members example_config)
       \<lparr>num_encoder_layers_m := 3, T_m := 9, decode_chunk_len_m := 4, rnn_hidden_size_m := 8,
        d_model_m := 4, context_size_m := 2, vocab_size_m := 500\<rparr>"

text \<open>A memory with one vector of three tokens, and one of a single token.\<close>

definition example_memory :: memory where
  "example_memory = [Allocated 0 \<mapsto> [5, 6, 7], Allocated 1 \<mapsto> [9, 6, 7], Allocated 2 \<mapsto> [5]]"

definition hyp_567 :: vector_int64 where
  "hyp_567 = \<lparr>vbuf = Allocated 0, vsize = 3\<rparr>"

definition hyp_967 :: vector_int64 where
  "hyp_967 = \<lparr>vbuf = Allocated 1, vsize = 3\<rparr>"

definition hyp_5 :: vector_int64 where
  "hyp_5 = \<lparr>vbuf = Allocated 2, vsize = 1\<rparr>"

text \<open>
  Three model files. The encoder graph answers three inputs with an embedding and the
  next two states; the second decoder file is the first without \<open>vocab_size\<close>.
\<close>

definition example_encoder_graph ::
  "string list \<Rightarrow> Value list \<Rightarrow> string list \<Rightarrow> string + Value list" where
  "example_encoder_graph in_names inputs out_names =
     (case inputs of
        [x, h, c] \<Rightarrow>
          Inr [FloatTensor [1, 1, 2] [Some 1, Some 2],
               FloatTensor [3, 1, 4] (replicate 12 (Some 1)),
               FloatTensor [3, 1, 8] (replicate 24 (Some 2))]
      | _ \<Rightarrow> Inl ''wrong number of inputs'')"

definition example_encoder :: onnx_model where
  "example_encoder =
     \<lparr>input_names = [''x'', ''h0'', ''c0''],
      output_names = [''encoder_out'', ''next_h0'', ''next_c0''],
      custom_metadata =
        map_of [(''num_encoder_layers'', ''3''), (''T'', ''9''), (''decode_chunk_len'', ''4''),
                (''rnn_hidden_size'', ''8''), (''d_model'', ''4'')],
      printed_metadata = [],
      graph = example_encoder_graph\<rparr>"

definition example_decoder :: onnx_model where
  "example_decoder =
     \<lparr>input_names = [''y''], output_names = [''decoder_out''],
      custom_metadata = map_of [(''vocab_size'', ''500''), (''context_size'', ''2'')],
      printed_metadata = [],
      graph = (\<lambda>in_names inputs out_names. Inl ''not run'')\<rparr>"

definition decoder_without_vocab_size :: onnx_model where
  "decoder_without_vocab_size =
     example_decoder\<lparr>custom_metadata := map_of [(''context_size'', ''2'')]\<rparr>"

definition example_joiner :: onnx_model where
  "example_joiner =
     \<lparr>input_names = [''encoder_out'', ''decoder_out''], output_names = [''logit''],
      custom_metadata = Map.empty,
      printed_metadata = [],
      graph = (\<lambda>in_names inputs out_names. Inl ''not run'')\<rparr>"

definition example_files :: "string \<Rightarrow> onnx_model option" where
  "example_files =
     map_of [(''encoder.onnx'', example_encoder), (''decoder.onnx'', example_decoder),
             (''joiner.onnx'', example_joiner)]"

definition files_without_vocab_size :: "string \<Rightarrow> onnx_model option" where
  "files_without_vocab_size =
     map_of [(''encoder.onnx'', example_encoder), (''decoder.onnx'', decoder_without_vocab_size),
             (''joiner.onnx'', example_joiner)]"

definition example_session :: Session where
  "example_session =
     \<lparr>session_file = ''encoder.onnx'',
      session_options = \<lparr>intra_op_num_threads = 2, inter_op_num_threads = 2\<rparr>,
      session_model = example_encoder\<rparr>"

text \<open>The example model with its encoder loaded.\<close>

definition loaded_model :: OnlineLstmTransducerModel where
  "loaded_model =
     example_model
       \<lparr>encoder_sess_m := Some example_session,
        encoder_input_names_m := [''x'', ''h0'', ''c0''],
        encoder_output_names_m := [''encoder_out'', ''next_h0'', ''next_c0'']\<rparr>"

text \<open>An encoder file whose metadata asks for 65536 layers of width 65536.\<close>

definition wide_encoder :: onnx_model where
  "wide_encoder =
     example_encoder
       \<lparr>custom_metadata :=
          map_of [(''num_encoder_layers'', ''65536''), (''T'', ''9''), (''decode_chunk_len'', ''4''),
                  (''rnn_hidden_size'', ''8''), (''d_model'', ''65536'')]\<rparr>"

definition wide_files :: "string \<Rightarrow> onnx_model option" where
  "wide_files =
     map_of [(''encoder.onnx'', wide_encoder), (''decoder.onnx'', example_decoder),
             (''joiner.onnx'', example_joiner)]"

section \<open>Properties of the example's \<open>main\<close>\<close>

lemma main_wave_NULL:
  assumes "SherpaOnnxReadWave api wav_filename = None"
  shows "main api =
           (- 1, [ReadWave wav_filename,
                  Fprintf_stderr (''Failed to read %s'' @ newline) [ArgStr wav_filename]])"
  using assms by (simp add: main_def)

lemma main_recognizer_NULL:
  assumes "SherpaOnnxReadWave api wav_filename = Some wave"
    and "SherpaOnnxCreateOfflineRecognizer api recognizer_config = None"
  shows "main api =
           (- 1, [ReadWave wav_filename,
                  CreateOfflineRecognizer recognizer_config,
                  Fprintf_stderr (''Please check your config!'' @ newline) [],
                  FreeWave wave])"
  using assms by (simp add: main_def)

text \<open>
  Claim C10. Each early-failure path of \<open>main\<close> stops before it uses a later resource.
  When reading the wave yields NULL, \<open>main\<close> returns -1 and no call creates a
  recogniser. When the wave was read and creating the recogniser yields NULL, \<open>main\<close>
  returns -1, its last call frees that wave, and no call creates a stream or decodes.
\<close>

theorem main_early_failure_paths:
  "(SherpaOnnxReadWave api wav_filename = None \<longrightarrow>
      fst (main api) = - 1 \<and> filter creates_recognizer (snd (main api)) = []) \<and>
   (SherpaOnnxReadWave api wav_filename = Some wave \<and>
    SherpaOnnxCreateOfflineRecognizer api recognizer_config = None \<longrightarrow>
      fst (main api) = - 1 \<and>
      last (snd (main api)) = FreeWave wave \<and>
      filter stream_or_decoding (snd (main api)) = [])"
proof (intro conjI impI)
  assume none: "SherpaOnnxReadWave api wav_filename = None"
  show "fst (main api) = - 1"
    by (simp add: main_wave_NULL [OF none])
  show "filter creates_recognizer (snd (main api)) = []"
    by (simp add: main_wave_NULL [OF none])
next
  assume both: "SherpaOnnxReadWave api wav_filename = Some wave \<and>
    SherpaOnnxCreateOfflineRecognizer api recognizer_config = None"
  then have w: "SherpaOnnxReadWave api wav_filename = Some wave"
    and r: "SherpaOnnxCreateOfflineRecognizer api recognizer_config = None"
    by simp_all
  show "fst (main api) = - 1"
    by (simp add: main_recognizer_NULL [OF w r])
  show "last (snd (main api)) = FreeWave wave"
    by (simp add: main_recognizer_NULL [OF w r])
  show "filter stream_or_decoding (snd (main api)) = []"
    by (simp add: main_recognizer_NULL [OF w r])
qed

theorem main_early_failure_paths_witness:
  "SherpaOnnxReadWave api_no_wave wav_filename = None \<and>
   fst (main api_no_wave) = - 1 \<and>
   filter creates_recognizer (snd (main api_no_wave)) = [] \<and>
   SherpaOnnxReadWave api_no_recognizer wav_filename = Some empty_wave \<and>
   SherpaOnnxCreateOfflineRecognizer api_no_recognizer recognizer_config = None \<and>
   fst (main api_no_recognizer) = - 1 \<and>
   last (snd (main api_no_recognizer)) = FreeWave empty_wave \<and>
   filter stream_or_decoding (snd (main api_no_recognizer)) = []"
proof -
  have a: "SherpaOnnxReadWave api_no_wave wav_filename = None"
    by (simp add: api_no_wave_def)
  have b: "SherpaOnnxReadWave api_no_recognizer wav_filename = Some empty_wave"
    by (simp add: api_no_recognizer_def)
  have c: "SherpaOnnxCreateOfflineRecognizer api_no_recognizer recognizer_config = None"
    by (simp add: api_no_recognizer_def)
  from a b c
    main_early_failure_paths [of api_no_wave empty_wave]
    main_early_failure_paths [of api_no_recognizer empty_wave]
  show ?thesis by simp
qed

section \<open>Properties of the metadata reader\<close>

subsection \<open>What \<open>atoi\<close> reads\<close>

lemma isdigit_not_isspace: "isdigit c \<Longrightarrow> \<not> isspace c"
  by (auto simp: isdigit_def isspace_def)

lemma isdigit_not_sign: "isdigit c \<Longrightarrow> c \<noteq> CHR ''-'' \<and> c \<noteq> CHR ''+''"
  by (auto simp: isdigit_def)

lemma sign_not_isspace: "\<not> isspace (CHR ''-'')" "\<not> isspace (CHR ''+'')"
  by (simp_all add: isspace_def)

lemma dropWhile_isspace_subject:
  assumes "\<forall>c \<in> set ws. isspace c" and "sg = [] \<or> sg = ''+'' \<or> sg = ''-''" and "isdigit d"
  shows "dropWhile isspace (ws @ sg @ d # rest) = sg @ d # rest"
proof -
  have "dropWhile isspace (ws @ sg @ d # rest) = dropWhile isspace (sg @ d # rest)"
    using assms(1) by (simp add: dropWhile_append2)
  also have "\<dots> = sg @ d # rest"
    using assms(2,3) by (auto simp: sign_not_isspace isdigit_not_isspace)
  finally show ?thesis .
qed

lemma strtol_sign_subject:
  assumes "sg = [] \<or> sg = ''+'' \<or> sg = ''-''" and "isdigit d"
  shows "strtol_sign (sg @ d # rest) = (sg = ''-'', d # rest)"
  using assms isdigit_not_sign [of d] by auto

lemma strtol_sign_split:
  "\<exists>sg. (sg = [] \<or> sg = ''+'' \<or> sg = ''-'') \<and> s = sg @ snd (strtol_sign s)"
proof (cases s)
  case Nil
  then have "([] = [] \<or> [] = ''+'' \<or> [] = ''-'') \<and> s = [] @ snd (strtol_sign s)"
    by simp
  then show ?thesis by (rule exI)
next
  case (Cons c cs)
  show ?thesis
  proof (cases "c = CHR ''-''")
    case True
    with Cons have "(''-'' = [] \<or> ''-'' = ''+'' \<or> ''-'' = ''-'') \<and> s = ''-'' @ snd (strtol_sign s)"
      by simp
    then show ?thesis by (rule exI)
  next
    case False
    show ?thesis
    proof (cases "c = CHR ''+''")
      case True
      with Cons have "(''+'' = [] \<or> ''+'' = ''+'' \<or> ''+'' = ''-'') \<and> s = ''+'' @ snd (strtol_sign s)"
        by simp
      then show ?thesis by (rule exI)
    next
      case plus: False
      with False Cons have "([] = [] \<or> [] = ''+'' \<or> [] = ''-'') \<and> s = [] @ snd (strtol_sign s)"
        by simp
      then show ?thesis by (rule exI)
    qed
  qed
qed

lemma has_integer_prefix_iff:
  "has_integer_prefix s \<longleftrightarrow>
     (case snd (strtol_sign (dropWhile isspace s)) of [] \<Rightarrow> False | c # cs \<Rightarrow> isdigit c)"
proof
  assume "has_integer_prefix s"
  then obtain ws sg d rest where s: "s = ws @ sg @ d # rest"
    and ws: "\<forall>c \<in> set ws. isspace c" and sg: "sg = [] \<or> sg = ''+'' \<or> sg = ''-''"
    and d: "isdigit d"
    unfolding has_integer_prefix_def by (elim exE conjE)
  show "case snd (strtol_sign (dropWhile isspace s)) of [] \<Rightarrow> False | c # cs \<Rightarrow> isdigit c"
    by (simp add: s dropWhile_isspace_subject [OF ws sg d] strtol_sign_subject [OF sg d] d)
next
  assume r: "case snd (strtol_sign (dropWhile isspace s)) of [] \<Rightarrow> False | c # cs \<Rightarrow> isdigit c"
  then obtain d rest where dr: "snd (strtol_sign (dropWhile isspace s)) = d # rest" and d: "isdigit d"
    by (auto split: list.splits)
  obtain sg where sg: "sg = [] \<or> sg = ''+'' \<or> sg = ''-''"
    and eq: "dropWhile isspace s = sg @ snd (strtol_sign (dropWhile isspace s))"
    using strtol_sign_split by blast
  have dd: "dropWhile isspace s = sg @ d # rest"
    using eq dr by simp
  have x: "takeWhile isspace s @ dropWhile isspace s = takeWhile isspace s @ sg @ d # rest"
    using dd by (rule arg_cong)
  have e: "s = takeWhile isspace s @ sg @ d # rest"
    by (rule trans [OF takeWhile_dropWhile_id [symmetric] x])
  have w: "\<forall>c \<in> set (takeWhile isspace s). isspace c"
    by (auto dest: set_takeWhileD)
  have "s = takeWhile isspace s @ sg @ d # rest \<and>
      (\<forall>c \<in> set (takeWhile isspace s). isspace c) \<and>
      (sg = [] \<or> sg = ''+'' \<or> sg = ''-'') \<and> isdigit d"
    using e w sg d by (intro conjI)
  then show "has_integer_prefix s"
    unfolding has_integer_prefix_def by (intro exI)
qed

lemma digits_value_no_digit: "s = [] \<or> \<not> isdigit (hd s) \<Longrightarrow> digits_value acc s = acc"
  by (cases s) auto

lemma digits_value_append:
  assumes "\<forall>c \<in> set ds. isdigit c" and "rest = [] \<or> \<not> isdigit (hd rest)"
  shows "digits_value acc (ds @ rest) = foldl (\<lambda>a c. a * 10 + digit_value c) acc ds"
  using assms(1)
proof (induction ds arbitrary: acc)
  case Nil
  show ?case using assms(2) by (simp add: digits_value_no_digit)
next
  case (Cons d ds)
  then show ?case by simp
qed

lemma foldl_digits_nonneg:
  "0 \<le> acc \<Longrightarrow> \<forall>c \<in> set xs. isdigit c \<Longrightarrow> 0 \<le> foldl (\<lambda>a c. a * 10 + digit_value c) acc xs"
  by (induction xs arbitrary: acc) (auto simp: isdigit_def digit_value_def)

lemma atoi_no_prefix: "\<not> has_integer_prefix s \<Longrightarrow> atoi s = Returns 0"
proof -
  assume no: "\<not> has_integer_prefix s"
  obtain negative digits where sd: "strtol_sign (dropWhile isspace s) = (negative, digits)"
    by (cases "strtol_sign (dropWhile isspace s)")
  from no have "digits = [] \<or> \<not> isdigit (hd digits)"
    by (cases digits) (simp_all add: has_integer_prefix_iff sd)
  then have "digits_value 0 digits = 0"
    by (rule digits_value_no_digit)
  then have "atoi s = (if INT_MIN \<le> (0::int) \<and> (0::int) \<le> INT_MAX then Returns 0 else Undefined)"
    unfolding atoi_def sd by (cases negative) simp_all
  then show ?thesis
    by (simp add: INT_MIN_def INT_MAX_def)
qed

lemma atoi_prefix:
  assumes "\<forall>c \<in> set ws. isspace c" and "sg = [] \<or> sg = ''+''" and "ds \<noteq> []"
    and "\<forall>c \<in> set ds. isdigit c" and "rest = [] \<or> \<not> isdigit (hd rest)"
  shows "atoi (ws @ sg @ ds @ rest) =
           (if decimal_value ds \<le> INT_MAX then Returns (decimal_value ds) else Undefined)"
proof -
  obtain d ds' where ds: "ds = d # ds'" using assms(3) by (cases ds) auto
  have d: "isdigit d" using assms(4) ds by simp
  have sg: "sg = [] \<or> sg = ''+'' \<or> sg = ''-''" using assms(2) by blast
  have neg: "(sg = ''-'') = False" using assms(2) by auto
  have a: "dropWhile isspace (ws @ sg @ ds @ rest) = sg @ ds @ rest"
    using dropWhile_isspace_subject [OF assms(1) sg d, of "ds' @ rest"] ds by simp
  have b: "strtol_sign (sg @ ds @ rest) = (False, ds @ rest)"
    using strtol_sign_subject [OF sg d, of "ds' @ rest"] ds neg by simp
  have c: "digits_value 0 (ds @ rest) = decimal_value ds"
    by (simp add: digits_value_append [OF assms(4,5)] decimal_value_def)
  have "0 \<le> decimal_value ds"
    unfolding decimal_value_def using foldl_digits_nonneg [of 0 ds] assms(4) by simp
  then show ?thesis
    by (simp add: atoi_def a b c INT_MIN_def)
qed

subsection \<open>The macro \<open>SHERPA_ONNX_READ_META_DATA\<close>\<close>

lemma atoi_cases: "(\<exists>v. atoi s = Returns v \<and> INT_MIN \<le> v \<and> v \<le> INT_MAX) \<or> atoi s = Undefined"
  by (simp add: atoi_def Let_def split: prod.splits)

lemma READ_missing:
  "md key = None \<Longrightarrow> SHERPA_ONNX_READ_META_DATA md key =
     ([Fprintf (''%s does not exist in the metadata'' @ newline) [ArgStr key]], Exits (- 1))"
  by (simp add: SHERPA_ONNX_READ_META_DATA_def)

lemma READ_nonpositive:
  "md key = Some s \<Longrightarrow> atoi s = Returns v \<Longrightarrow> v \<le> 0 \<Longrightarrow> SHERPA_ONNX_READ_META_DATA md key =
     ([Fprintf (''Invalud value %d for %s'' @ newline) [ArgInt v, ArgStr key]], Exits (- 1))"
  by (simp add: SHERPA_ONNX_READ_META_DATA_def)

lemma READ_positive:
  "md key = Some s \<Longrightarrow> atoi s = Returns v \<Longrightarrow> 0 < v \<Longrightarrow> SHERPA_ONNX_READ_META_DATA md key = ([], Returns v)"
  by (simp add: SHERPA_ONNX_READ_META_DATA_def)

lemma READ_undefined:
  "md key = Some s \<Longrightarrow> atoi s = Undefined \<Longrightarrow> SHERPA_ONNX_READ_META_DATA md key = ([], Undefined)"
  by (simp add: SHERPA_ONNX_READ_META_DATA_def)

text \<open>
  Claim C4. For every metadata map and key, reading the key ends the process exactly
  when the key is absent or \<open>atoi\<close> reads its value as an integer that is at most 0; the
  read never leaves by an exception; and when \<open>atoi\<close> reads a positive integer, the read
  succeeds, prints nothing, and the integer stored is that one.
\<close>

theorem read_meta_data_fatal_iff:
  "((\<exists>n. snd (SHERPA_ONNX_READ_META_DATA md key) = Exits n) \<longleftrightarrow>
      md key = None \<or> (\<exists>s v. md key = Some s \<and> atoi s = Returns v \<and> v \<le> 0)) \<and>
   (\<forall>e. snd (SHERPA_ONNX_READ_META_DATA md key) \<noteq> Throws e) \<and>
   (\<forall>s v. md key = Some s \<and> atoi s = Returns v \<and> 0 < v \<longrightarrow>
      SHERPA_ONNX_READ_META_DATA md key = ([], Returns v))"
proof (intro conjI allI impI)
  show "(\<exists>n. snd (SHERPA_ONNX_READ_META_DATA md key) = Exits n) \<longleftrightarrow>
      md key = None \<or> (\<exists>s v. md key = Some s \<and> atoi s = Returns v \<and> v \<le> 0)"
  proof (cases "md key")
    case None
    then show ?thesis by (simp add: READ_missing)
  next
    case (Some s)
    from atoi_cases [of s] show ?thesis
    proof
      assume "\<exists>v. atoi s = Returns v \<and> INT_MIN \<le> v \<and> v \<le> INT_MAX"
      then obtain v where v: "atoi s = Returns v" by blast
      show ?thesis
      proof (cases "v \<le> 0")
        case True
        with Some v show ?thesis by (simp add: READ_nonpositive)
      next
        case False
        with Some v show ?thesis by (simp add: READ_positive)
      qed
    next
      assume "atoi s = Undefined"
      with Some show ?thesis by (simp add: READ_undefined)
    qed
  qed
next
  fix e
  show "snd (SHERPA_ONNX_READ_META_DATA md key) \<noteq> Throws e"
  proof (cases "md key")
    case None
    then show ?thesis by (simp add: READ_missing)
  next
    case (Some s)
    from atoi_cases [of s] show ?thesis
    proof
      assume "\<exists>v. atoi s = Returns v \<and> INT_MIN \<le> v \<and> v \<le> INT_MAX"
      then obtain v where v: "atoi s = Returns v" by blast
      with Some show ?thesis
        by (cases "v \<le> 0") (simp_all add: READ_nonpositive READ_positive)
    next
      assume "atoi s = Undefined"
      with Some show ?thesis by (simp add: READ_undefined)
    qed
  qed
next
  fix s v
  assume "md key = Some s \<and> atoi s = Returns v \<and> 0 < v"
  then show "SHERPA_ONNX_READ_META_DATA md key = ([], Returns v)"
    by (simp add: READ_positive)
qed

lemma atoi_0: "atoi ''0'' = Returns 0"
  by (simp add: atoi_def isspace_def isdigit_def digit_value_def INT_MAX_def INT_MIN_def)

lemma atoi_39: "atoi ''39'' = Returns 39"
  by (simp add: atoi_def isspace_def isdigit_def digit_value_def INT_MAX_def INT_MIN_def)

theorem read_meta_data_fatal_iff_witness:
  "(\<exists>n. snd (SHERPA_ONNX_READ_META_DATA Map.empty ''T'') = Exits n) \<and>
   (\<exists>n. snd (SHERPA_ONNX_READ_META_DATA [''T'' \<mapsto> ''0''] ''T'') = Exits n) \<and>
   SHERPA_ONNX_READ_META_DATA [''T'' \<mapsto> ''39''] ''T'' = ([], Returns 39)"
proof (intro conjI)
  show "\<exists>n. snd (SHERPA_ONNX_READ_META_DATA Map.empty ''T'') = Exits n"
    using read_meta_data_fatal_iff [of Map.empty "''T''"] by simp
  have "[''T'' \<mapsto> ''0''] ''T'' = Some ''0'' \<and> atoi ''0'' = Returns 0 \<and> (0::int) \<le> 0"
    by (simp add: atoi_0)
  then show "\<exists>n. snd (SHERPA_ONNX_READ_META_DATA [''T'' \<mapsto> ''0''] ''T'') = Exits n"
    using read_meta_data_fatal_iff [of "[''T'' \<mapsto> ''0'']" "''T''"] by blast
  have "[''T'' \<mapsto> ''39''] ''T'' = Some ''39'' \<and> atoi ''39'' = Returns 39 \<and> (0::int) < 39"
    by (simp add: atoi_39)
  then show "SHERPA_ONNX_READ_META_DATA [''T'' \<mapsto> ''39''] ''T'' = ([], Returns 39)"
    using read_meta_data_fatal_iff [of "[''T'' \<mapsto> ''39'']" "''T''"] by blast
qed

text \<open>
  Claim C9, amended. The value of a present key is read as \<open>atoi\<close> reads it. A value with
  no leading decimal integer (white space, an optional sign, a digit) is read as 0, and
  the process ends through the branch for values that are not positive. A value made of
  white space, an optional \<open>+\<close>, a run of digits whose number is positive and at most
  \<open>INT_MAX\<close>, and a rest that does not start with a digit is accepted, and the integer
  stored is the number of the digits: the rest of the string is not looked at.
\<close>

theorem metadata_atoi_semantics:
  assumes "md key = Some s"
  shows "(\<not> has_integer_prefix s \<longrightarrow>
            SHERPA_ONNX_READ_META_DATA md key =
              ([Fprintf (''Invalud value %d for %s'' @ newline) [ArgInt 0, ArgStr key]],
               Exits (- 1))) \<and>
         (\<forall>ws sg ds rest.
            s = ws @ sg @ ds @ rest \<and> (\<forall>c \<in> set ws. isspace c) \<and> (sg = [] \<or> sg = ''+'') \<and>
            ds \<noteq> [] \<and> (\<forall>c \<in> set ds. isdigit c) \<and> (rest = [] \<or> \<not> isdigit (hd rest)) \<and>
            0 < decimal_value ds \<and> decimal_value ds \<le> INT_MAX \<longrightarrow>
            SHERPA_ONNX_READ_META_DATA md key = ([], Returns (decimal_value ds)))"
proof (intro conjI allI impI)
  assume "\<not> has_integer_prefix s"
  then have "atoi s = Returns 0" by (rule atoi_no_prefix)
  with assms show "SHERPA_ONNX_READ_META_DATA md key =
      ([Fprintf (''Invalud value %d for %s'' @ newline) [ArgInt 0, ArgStr key]], Exits (- 1))"
    by (simp add: READ_nonpositive)
next
  fix ws sg ds rest
  assume h: "s = ws @ sg @ ds @ rest \<and> (\<forall>c \<in> set ws. isspace c) \<and> (sg = [] \<or> sg = ''+'') \<and>
            ds \<noteq> [] \<and> (\<forall>c \<in> set ds. isdigit c) \<and> (rest = [] \<or> \<not> isdigit (hd rest)) \<and>
            0 < decimal_value ds \<and> decimal_value ds \<le> INT_MAX"
  then have "atoi (ws @ sg @ ds @ rest) =
      (if decimal_value ds \<le> INT_MAX then Returns (decimal_value ds) else Undefined)"
    by (intro atoi_prefix) simp_all
  with h have "atoi s = Returns (decimal_value ds)" by simp
  with assms h show "SHERPA_ONNX_READ_META_DATA md key = ([], Returns (decimal_value ds))"
    by (simp add: READ_positive)
qed

lemma no_prefix_abc: "\<not> has_integer_prefix ''abc''"
  by (simp add: has_integer_prefix_iff isspace_def isdigit_def)

lemma decimal_value_3: "decimal_value ''3'' = 3"
  by (simp add: decimal_value_def digit_value_def)

theorem metadata_atoi_semantics_witness:
  "SHERPA_ONNX_READ_META_DATA [''T'' \<mapsto> ''abc''] ''T'' =
     ([Fprintf (''Invalud value %d for %s'' @ newline) [ArgInt 0, ArgStr ''T'']], Exits (- 1)) \<and>
   SHERPA_ONNX_READ_META_DATA [''T'' \<mapsto> ''3x''] ''T'' = ([], Returns 3)"
proof
  have a: "[''T'' \<mapsto> ''abc''] ''T'' = Some ''abc''" by simp
  from metadata_atoi_semantics [of "[''T'' \<mapsto> ''abc'']" "''T''" "''abc''", OF a] no_prefix_abc
  show "SHERPA_ONNX_READ_META_DATA [''T'' \<mapsto> ''abc''] ''T'' =
     ([Fprintf (''Invalud value %d for %s'' @ newline) [ArgInt 0, ArgStr ''T'']], Exits (- 1))"
    by blast
  have b: "[''T'' \<mapsto> ''3x''] ''T'' = Some ''3x''" by simp
  have c: "''3x'' = [] @ [] @ ''3'' @ ''x'' \<and> (\<forall>c \<in> set []. isspace c) \<and>
      ([] = [] \<or> [] = ''+'') \<and> ''3'' \<noteq> [] \<and> (\<forall>c \<in> set ''3''. isdigit c) \<and>
      (''x'' = [] \<or> \<not> isdigit (hd ''x'')) \<and> 0 < decimal_value ''3'' \<and>
      decimal_value ''3'' \<le> INT_MAX"
    by (simp add: decimal_value_3 isdigit_def INT_MAX_def)
  from metadata_atoi_semantics [of "[''T'' \<mapsto> ''3x'']" "''T''" "''3x''", OF b, THEN conjunct2, rule_format, OF c]
  show "SHERPA_ONNX_READ_META_DATA [''T'' \<mapsto> ''3x''] ''T'' = ([], Returns 3)"
    by (simp add: decimal_value_3)
qed

text \<open>
  Without the bound the second half fails: the digits of \<open>2147483648x\<close> are a positive
  integer followed by a character that is not a digit, and the read does not return it.
\<close>

lemma atoi_2147483648x: "atoi ''2147483648x'' = Undefined"
  by (simp add: atoi_def isspace_def isdigit_def digit_value_def INT_MAX_def INT_MIN_def)

theorem metadata_atoi_prefix_counterexample:
  "0 < decimal_value ''2147483648'' \<and> \<not> isdigit (CHR ''x'') \<and>
   snd (SHERPA_ONNX_READ_META_DATA [''T'' \<mapsto> ''2147483648x''] ''T'') \<noteq>
     Returns (decimal_value ''2147483648'')"
  by (simp add: READ_undefined [of _ _ "''2147483648x''"] atoi_2147483648x
      decimal_value_def digit_value_def isdigit_def)

section \<open>Properties of the recurrent states\<close>

text \<open>
  Claim C1 asks that unstacking the stacked states gives the states back. The two
  functions are placeholders: whatever the states are, the result is the empty vector,
  so every sequence with at least one state is lost.
\<close>

theorem UnStackStates_StackStates_empty:
  "snd (bind_proc (StackStates (s # states)) UnStackStates) = Returns [] \<and>
   snd (bind_proc (StackStates (s # states)) UnStackStates) \<noteq> Returns (s # states)"
  by (simp add: StackStates_def UnStackStates_def)

lemma mul_int32_in_range:
  "INT_MIN \<le> a * b \<Longrightarrow> a * b \<le> INT_MAX \<Longrightarrow> mul_int32 a b = Returns (a * b)"
  by (simp add: mul_int32_def)

lemma mul_int32_overflow: "INT_MAX < a * b \<Longrightarrow> mul_int32 a b = Undefined"
  by (simp add: mul_int32_def)

lemma CreateTensor_float_3:
  "0 \<le> a \<Longrightarrow> 0 \<le> b \<Longrightarrow> 0 \<le> c \<Longrightarrow>
   CreateTensor_float [a, b, c] = Returns (FloatTensor [a, b, c] (replicate (nat (a * b * c)) None))"
  by (simp add: CreateTensor_float_def mult.assoc)

lemma std_fill_all:
  "0 \<le> n \<Longrightarrow> std_fill (FloatTensor shape (replicate (nat n) None)) n v =
     Returns (FloatTensor shape (replicate (nat n) (Some v)))"
  by simp

lemma GetEncoderInitStates_in_range:
  assumes "stored_dimension (num_encoder_layers_m m)" and "stored_dimension (d_model_m m)"
    and "stored_dimension (rnn_hidden_size_m m)"
    and "num_encoder_layers_m m * d_model_m m \<le> INT_MAX"
    and "num_encoder_layers_m m * rnn_hidden_size_m m \<le> INT_MAX"
  shows "GetEncoderInitStates m =
     Returns [FloatTensor [num_encoder_layers_m m, 1, d_model_m m]
                (replicate (nat (num_encoder_layers_m m * d_model_m m)) (Some 0)),
              FloatTensor [num_encoder_layers_m m, 1, rnn_hidden_size_m m]
                (replicate (nat (num_encoder_layers_m m * rnn_hidden_size_m m)) (Some 0))]"
proof -
  let ?l = "num_encoder_layers_m m" and ?d = "d_model_m m" and ?h = "rnn_hidden_size_m m"
  have l: "0 < ?l" "?l \<le> INT_MAX" and d: "0 < ?d" and h: "0 < ?h"
    using assms(1-3) by (simp_all add: stored_dimension_def)
  have ld: "0 \<le> ?l * ?d" and lh: "0 \<le> ?l * ?h"
    using l d h by simp_all
  have a: "CreateTensor_float [?l, kBatchSize, ?d] =
      Returns (FloatTensor [?l, 1, ?d] (replicate (nat (?l * ?d)) None))"
    using CreateTensor_float_3 [of ?l 1 ?d] l d by (simp add: kBatchSize_def)
  have b: "CreateTensor_float [?l, kBatchSize, ?h] =
      Returns (FloatTensor [?l, 1, ?h] (replicate (nat (?l * ?h)) None))"
    using CreateTensor_float_3 [of ?l 1 ?h] l h by (simp add: kBatchSize_def)
  have c: "mul_int32 ?l kBatchSize = Returns ?l"
    using l by (simp add: mul_int32_def kBatchSize_def INT_MIN_def)
  have e: "mul_int32 ?l ?d = Returns (?l * ?d)"
    using ld assms(4) by (simp add: mul_int32_def INT_MIN_def)
  have f: "mul_int32 ?l ?h = Returns (?l * ?h)"
    using lh assms(5) by (simp add: mul_int32_def INT_MIN_def)
  show ?thesis
    unfolding GetEncoderInitStates_def a b c e f bind_outcome.simps
      std_fill_all [OF ld] std_fill_all [OF lh] ..
qed

lemma GetEncoderInitStates_overflow:
  assumes "stored_dimension (num_encoder_layers_m m)" and "stored_dimension (d_model_m m)"
    and "INT_MAX < num_encoder_layers_m m * d_model_m m"
  shows "GetEncoderInitStates m = Undefined"
proof -
  let ?l = "num_encoder_layers_m m" and ?d = "d_model_m m"
  have l: "0 < ?l" "?l \<le> INT_MAX" and d: "0 < ?d"
    using assms(1,2) by (simp_all add: stored_dimension_def)
  have a: "CreateTensor_float [?l, kBatchSize, ?d] =
      Returns (FloatTensor [?l, 1, ?d] (replicate (nat (?l * ?d)) None))"
    using CreateTensor_float_3 [of ?l 1 ?d] l d by (simp add: kBatchSize_def)
  have c: "mul_int32 ?l kBatchSize = Returns ?l"
    using l by (simp add: mul_int32_def kBatchSize_def INT_MIN_def)
  have e: "mul_int32 ?l ?d = Undefined"
    using assms(3) by (rule mul_int32_overflow)
  show ?thesis
    unfolding GetEncoderInitStates_def a c e bind_outcome.simps ..
qed

lemma GetEncoderInitStates_65536:
  "GetEncoderInitStates (m\<lparr>num_encoder_layers_m := 65536, d_model_m := 65536\<rparr>) = Undefined"
  by (rule GetEncoderInitStates_overflow) (simp_all add: stored_dimension_def INT_MAX_def)

lemma GetEncoderInitStates_example:
  "GetEncoderInitStates example_model =
     Returns [FloatTensor [3, 1, 4] (replicate 12 (Some 0)),
              FloatTensor [3, 1, 8] (replicate 24 (Some 0))]"
  using GetEncoderInitStates_in_range [of example_model]
  by (simp add: example_model_def stored_dimension_def INT_MAX_def)

section \<open>Properties of the decoder input\<close>

lemma to_size_t_stored: "stored_dimension n \<Longrightarrow> to_size_t n = nat n"
  by (simp add: to_size_t_def stored_dimension_def INT_MAX_def)

lemma BuildDecoderInput_view:
  assumes "stored_dimension (context_size_m m)"
  shows "BuildDecoderInput m hyp =
           Int64View [1, context_size_m m]
             (Ptr (vbuf hyp) (int (vsize hyp) - context_size_m m)) (nat (context_size_m m))"
  by (simp add: BuildDecoderInput_def CreateTensor_def vector_data_def
      to_size_t_stored [OF assms])

lemma vector_elems_SomeD:
  assumes "vector_elems mem hyp = Some xs"
  obtains cells where "mem (vbuf hyp) = Some cells" and "vsize hyp \<le> length cells"
    and "xs = take (vsize hyp) cells"
  using assms by (auto simp: vector_elems_def vector_data_def split: option.splits if_splits)

lemma tensor_int64_trailing:
  assumes ctx: "stored_dimension (context_size_m m)"
    and v: "vector_elems mem hyp = Some xs"
    and le: "context_size_m m \<le> int (length xs)"
  shows "tensor_int64 mem (BuildDecoderInput m hyp) =
           Some (drop (length xs - nat (context_size_m m)) xs)"
proof -
  let ?k = "nat (context_size_m m)"
  from v obtain cells where cells: "mem (vbuf hyp) = Some cells"
    and n: "vsize hyp \<le> length cells" and xs: "xs = take (vsize hyp) cells"
    by (rule vector_elems_SomeD)
  have len: "length xs = vsize hyp" using n xs by simp
  have k: "0 < context_size_m m" using ctx by (simp add: stored_dimension_def)
  have kn: "?k \<le> vsize hyp" using le len k by simp
  have off: "nat (int (vsize hyp) - context_size_m m) = vsize hyp - ?k"
    using k by simp
  have "take ?k (drop (vsize hyp - ?k) cells) = drop (vsize hyp - ?k) (take (vsize hyp) cells)"
    using kn by (simp add: drop_take)
  then show ?thesis
    using cells n kn k le len off
    by (simp add: BuildDecoderInput_view [OF ctx] xs)
qed

lemma tensor_int64_short:
  assumes ctx: "stored_dimension (context_size_m m)"
    and short: "int (vsize hyp) < context_size_m m"
  shows "tensor_int64 mem (BuildDecoderInput m hyp) = None"
  using short by (simp add: BuildDecoderInput_view [OF ctx] split: option.splits)

text \<open>
  Claim C2. Let the context size be a stored dimension. \<open>BuildDecoderInput\<close> returns a
  tensor of shape \<open>[1, context_size]\<close> whose data pointer lies in the buffer of the
  hypothesis, \<open>context_size\<close> cells before its end: nothing is copied. When the hypothesis
  holds at least \<open>context_size\<close> tokens, the elements of the tensor, read from memory, are
  its last \<open>context_size\<close> tokens in order. When it holds fewer, the call is not refused:
  the pointer lies before the buffer and reading the elements is out of bounds.
\<close>

theorem BuildDecoderInput_trailing_context:
  assumes "stored_dimension (context_size_m m)"
  shows "tensor_shape (BuildDecoderInput m hyp) = Some [1, context_size_m m] \<and>
         BuildDecoderInput m hyp =
           CreateTensor (ptr_add (vector_data hyp) (int (vsize hyp) - context_size_m m))
             (nat (context_size_m m)) [1, context_size_m m] \<and>
         (\<forall>mem xs. vector_elems mem hyp = Some xs \<and> context_size_m m \<le> int (length xs) \<longrightarrow>
            tensor_int64 mem (BuildDecoderInput m hyp) =
              Some (drop (length xs - nat (context_size_m m)) xs)) \<and>
         (int (vsize hyp) < context_size_m m \<longrightarrow>
            (\<forall>mem. tensor_int64 mem (BuildDecoderInput m hyp) = None))"
proof (intro conjI allI impI)
  show "tensor_shape (BuildDecoderInput m hyp) = Some [1, context_size_m m]"
    by (simp add: BuildDecoderInput_view [OF assms])
  show "BuildDecoderInput m hyp =
      CreateTensor (ptr_add (vector_data hyp) (int (vsize hyp) - context_size_m m))
        (nat (context_size_m m)) [1, context_size_m m]"
    by (simp add: BuildDecoderInput_view [OF assms] CreateTensor_def vector_data_def)
next
  fix mem xs
  assume "vector_elems mem hyp = Some xs \<and> context_size_m m \<le> int (length xs)"
  then show "tensor_int64 mem (BuildDecoderInput m hyp) =
      Some (drop (length xs - nat (context_size_m m)) xs)"
    using tensor_int64_trailing [OF assms] by blast
next
  fix mem
  assume "int (vsize hyp) < context_size_m m"
  then show "tensor_int64 mem (BuildDecoderInput m hyp) = None"
    by (rule tensor_int64_short [OF assms])
qed

lemma example_context: "stored_dimension (context_size_m example_model)"
  by (simp add: example_model_def stored_dimension_def INT_MAX_def)

lemma vector_elems_567: "vector_elems example_memory hyp_567 = Some [5, 6, 7]"
  by (simp add: vector_elems_def vector_data_def example_memory_def hyp_567_def)

lemma vector_elems_967: "vector_elems example_memory hyp_967 = Some [9, 6, 7]"
  by (simp add: vector_elems_def vector_data_def example_memory_def hyp_967_def)

theorem BuildDecoderInput_trailing_context_witness:
  "stored_dimension (context_size_m example_model) \<and>
   tensor_shape (BuildDecoderInput example_model hyp_567) = Some [1, 2] \<and>
   tensor_int64 example_memory (BuildDecoderInput example_model hyp_567) = Some [6, 7] \<and>
   tensor_int64 example_memory (BuildDecoderInput example_model hyp_5) = None"
proof -
  note t = BuildDecoderInput_trailing_context [OF example_context]
  have ctx: "context_size_m example_model = 2"
    by (simp add: example_model_def)
  have a: "tensor_shape (BuildDecoderInput example_model hyp_567) = Some [1, 2]"
    using t [of hyp_567, THEN conjunct1] ctx by simp
  have "vector_elems example_memory hyp_567 = Some [5, 6, 7] \<and>
      context_size_m example_model \<le> int (length [5 :: int64_t, 6, 7])"
    by (simp add: vector_elems_567 ctx)
  then have b: "tensor_int64 example_memory (BuildDecoderInput example_model hyp_567) =
      Some (drop (length [5 :: int64_t, 6, 7] - nat (context_size_m example_model)) [5, 6, 7])"
    using t [of hyp_567, THEN conjunct2, THEN conjunct2, THEN conjunct1] by blast
  have "int (vsize hyp_5) < context_size_m example_model"
    by (simp add: hyp_5_def ctx)
  then have c: "tensor_int64 example_memory (BuildDecoderInput example_model hyp_5) = None"
    using t [of hyp_5, THEN conjunct2, THEN conjunct2, THEN conjunct2] by blast
  from a b c example_context show ?thesis by (simp add: ctx)
qed

text \<open>
  Claim C7. Two hypotheses of at least \<open>context_size\<close> tokens that agree on their last
  \<open>context_size\<close> tokens give decoder inputs of the same shape and the same elements,
  whatever the tokens before.
\<close>

theorem BuildDecoderInput_depends_on_trailing_context:
  assumes "stored_dimension (context_size_m m)"
    and "vector_elems mem1 hyp1 = Some xs1" and "vector_elems mem2 hyp2 = Some xs2"
    and "context_size_m m \<le> int (length xs1)" and "context_size_m m \<le> int (length xs2)"
    and "drop (length xs1 - nat (context_size_m m)) xs1 =
         drop (length xs2 - nat (context_size_m m)) xs2"
  shows "tensor_shape (BuildDecoderInput m hyp1) = tensor_shape (BuildDecoderInput m hyp2) \<and>
         tensor_int64 mem1 (BuildDecoderInput m hyp1) =
           tensor_int64 mem2 (BuildDecoderInput m hyp2)"
proof
  show "tensor_shape (BuildDecoderInput m hyp1) = tensor_shape (BuildDecoderInput m hyp2)"
    by (simp add: BuildDecoderInput_view [OF assms(1)])
  show "tensor_int64 mem1 (BuildDecoderInput m hyp1) =
      tensor_int64 mem2 (BuildDecoderInput m hyp2)"
    by (simp add: tensor_int64_trailing [OF assms(1,2,4)]
        tensor_int64_trailing [OF assms(1,3,5)] assms(6))
qed

theorem BuildDecoderInput_depends_on_trailing_context_witness:
  "vector_elems example_memory hyp_567 = Some [5, 6, 7] \<and>
   vector_elems example_memory hyp_967 = Some [9, 6, 7] \<and>
   tensor_shape (BuildDecoderInput example_model hyp_567) =
     tensor_shape (BuildDecoderInput example_model hyp_967) \<and>
   tensor_int64 example_memory (BuildDecoderInput example_model hyp_567) =
     tensor_int64 example_memory (BuildDecoderInput example_model hyp_967)"
proof -
  have ctx: "context_size_m example_model = 2"
    by (simp add: example_model_def)
  have "tensor_shape (BuildDecoderInput example_model hyp_567) =
      tensor_shape (BuildDecoderInput example_model hyp_967) \<and>
    tensor_int64 example_memory (BuildDecoderInput example_model hyp_567) =
      tensor_int64 example_memory (BuildDecoderInput example_model hyp_967)"
    by (rule BuildDecoderInput_depends_on_trailing_context
        [OF example_context vector_elems_567 vector_elems_967])
      (simp_all add: ctx)
  then show ?thesis
    by (simp add: vector_elems_567 vector_elems_967)
qed

section \<open>Properties of the encoder run\<close>

lemma RunEncoder_run:
  assumes "encoder_sess_m m = Some sess" and "3 \<le> length (encoder_input_names_m m)"
  shows "RunEncoder m features [h, c] =
     ([Null, Null],
      bind_proc
        (Session_Run sess (take 3 (encoder_input_names_m m)) [features, h, c]
           (encoder_output_names_m m))
        (\<lambda>encoder_out.
           if length encoder_out < 3 then ([], Undefined)
           else ([], Returns (encoder_out ! 0, [encoder_out ! 1, encoder_out ! 2]))))"
  using assms by (simp add: RunEncoder_def numeral_3_eq_3)

lemma RunEncoder_throws:
  assumes "encoder_sess_m m = Some sess" and "3 \<le> length (encoder_input_names_m m)"
    and "graph (session_model sess) (take 3 (encoder_input_names_m m)) [features, h, c]
           (encoder_output_names_m m) = Inl e"
  shows "snd (snd (RunEncoder m features [h, c])) = Throws e"
  using assms(3) by (simp add: RunEncoder_run [OF assms(1,2)] Session_Run_def)

text \<open>
  Claim C5. Let the encoder session be loaded with three input names and three output
  names, and let the graph answer the call. For every features tensor and pair of
  states, \<open>RunEncoder\<close> makes one call of the graph, with the three inputs features,
  hidden state, cell state in this order under the three input names, asking for the
  three outputs; it returns the first output paired with the second and third as the
  next states; and the caller's two states have been moved from.
\<close>

theorem RunEncoder_inputs_and_outputs:
  assumes "encoder_sess_m m = Some sess"
    and "length (encoder_input_names_m m) = 3" and "length (encoder_output_names_m m) = 3"
    and "graph (session_model sess) (encoder_input_names_m m) [features, h, c]
           (encoder_output_names_m m) = Inr [encoder_out, next_h, next_c]"
  shows "RunEncoder m features [h, c] =
           ([Null, Null],
            [SessionRun (session_file sess) (encoder_input_names_m m) [features, h, c]
               (encoder_output_names_m m)],
            Returns (encoder_out, [next_h, next_c]))"
proof -
  have names: "take 3 (encoder_input_names_m m) = encoder_input_names_m m"
    using assms(2) by simp
  have "3 \<le> length (encoder_input_names_m m)" using assms(2) by simp
  from RunEncoder_run [OF assms(1) this, of features h c] assms(4)
  show ?thesis
    by (simp add: names Session_Run_def)
qed

theorem RunEncoder_inputs_and_outputs_witness:
  "RunEncoder loaded_model (FloatTensor [1, 9, 80] (replicate 720 (Some 0)))
     [FloatTensor [3, 1, 4] (replicate 12 (Some 0)), FloatTensor [3, 1, 8] (replicate 24 (Some 0))] =
     ([Null, Null],
      [SessionRun ''encoder.onnx'' [''x'', ''h0'', ''c0'']
         [FloatTensor [1, 9, 80] (replicate 720 (Some 0)),
          FloatTensor [3, 1, 4] (replicate 12 (Some 0)),
          FloatTensor [3, 1, 8] (replicate 24 (Some 0))]
         [''encoder_out'', ''next_h0'', ''next_c0'']],
      Returns (FloatTensor [1, 1, 2] [Some 1, Some 2],
               [FloatTensor [3, 1, 4] (replicate 12 (Some 1)),
                FloatTensor [3, 1, 8] (replicate 24 (Some 2))]))"
proof -
  have a: "encoder_sess_m loaded_model = Some example_session"
    by (simp add: loaded_model_def)
  have b: "length (encoder_input_names_m loaded_model) = 3"
    by (simp add: loaded_model_def)
  have c: "length (encoder_output_names_m loaded_model) = 3"
    by (simp add: loaded_model_def)
  have d: "graph (session_model example_session) (encoder_input_names_m loaded_model)
      [FloatTensor [1, 9, 80] (replicate 720 (Some 0)),
       FloatTensor [3, 1, 4] (replicate 12 (Some 0)), FloatTensor [3, 1, 8] (replicate 24 (Some 0))]
      (encoder_output_names_m loaded_model) =
      Inr [FloatTensor [1, 1, 2] [Some 1, Some 2],
           FloatTensor [3, 1, 4] (replicate 12 (Some 1)),
           FloatTensor [3, 1, 8] (replicate 24 (Some 2))]"
    by (simp add: example_session_def example_encoder_def example_encoder_graph_def)
  have e: "session_file example_session = ''encoder.onnx''"
    by (simp add: example_session_def)
  have f: "encoder_input_names_m loaded_model = [''x'', ''h0'', ''c0'']"
    "encoder_output_names_m loaded_model = [''encoder_out'', ''next_h0'', ''next_c0'']"
    by (simp_all add: loaded_model_def)
  from RunEncoder_inputs_and_outputs [OF a b c d] show ?thesis
    unfolding e f .
qed

section \<open>Properties of the constructor\<close>

subsection \<open>Sequencing\<close>

lemma fst_bind_proc:
  "fst (bind_proc p f) = fst p @ (case snd p of Returns x \<Rightarrow> fst (f x) | _ \<Rightarrow> [])"
  by (cases p; cases "snd p") auto

lemma snd_bind_proc: "snd (bind_proc p f) = bind_outcome (snd p) (\<lambda>x. snd (f x))"
  by (cases p; cases "snd p") auto

lemma bind_outcome_Returns_iff:
  "bind_outcome r f = Returns y \<longleftrightarrow> (\<exists>x. r = Returns x \<and> f x = Returns y)"
  by (cases r) auto

lemma bind_proc_fprintf:
  assumes "list_all is_fprintf (fst p)" and "\<And>x. list_all is_fprintf (fst (f x))"
  shows "list_all is_fprintf (fst (bind_proc p f))"
  using assms by (simp add: fst_bind_proc split: outcome.splits)

lemma opened_with_append: "opened_with (xs @ ys) = opened_with xs @ opened_with ys"
  by (induction xs rule: opened_with.induct) simp_all

lemma opened_with_fprintf: "list_all is_fprintf evs \<Longrightarrow> opened_with evs = []"
  by (induction evs rule: opened_with.induct) simp_all

lemma is_run_fprintf: "list_all is_fprintf evs \<Longrightarrow> filter is_run evs = []"
  by (induction evs rule: opened_with.induct) simp_all

subsection \<open>Reading one key\<close>

lemma READ_Returns_iff:
  "snd (SHERPA_ONNX_READ_META_DATA md key) = Returns v \<longleftrightarrow> positive_metadata md key = Some v"
  by (auto simp: SHERPA_ONNX_READ_META_DATA_def positive_metadata_def
      split: option.splits outcome.splits)

lemma READ_fprintf: "list_all is_fprintf (fst (SHERPA_ONNX_READ_META_DATA md key))"
  by (simp add: SHERPA_ONNX_READ_META_DATA_def split: option.splits outcome.splits)

lemma READ_missing_key:
  "md key = None \<Longrightarrow> snd (SHERPA_ONNX_READ_META_DATA md key) = Exits (- 1)"
  by (simp add: SHERPA_ONNX_READ_META_DATA_def)

lemma positive_metadata_missing: "md key = None \<Longrightarrow> positive_metadata md key = None"
  by (simp add: positive_metadata_def)

lemma print_debug_fprintf: "list_all is_fprintf (fst (print_debug dbg title sess))"
  by (simp add: print_debug_def)

lemma print_debug_Returns: "snd (print_debug dbg title sess) = Returns ()"
  by (simp add: print_debug_def)

subsection \<open>The three initialisers\<close>

lemma InitEncoder_events:
  "\<exists>evs. fst (InitEncoder files filename m) = NewSession filename (sess_opts_m m) # evs \<and>
     list_all is_fprintf evs"
proof (cases "files filename")
  case None
  then show ?thesis by (simp add: InitEncoder_def new_Session_def)
next
  case (Some g)
  then show ?thesis
    unfolding InitEncoder_def new_Session_def Let_def
    by (simp add: bind_proc_fprintf READ_fprintf print_debug_fprintf return_proc_def)
qed

lemma InitDecoder_events:
  "\<exists>evs. fst (InitDecoder files filename m) = NewSession filename (sess_opts_m m) # evs \<and>
     list_all is_fprintf evs"
proof (cases "files filename")
  case None
  then show ?thesis by (simp add: InitDecoder_def new_Session_def)
next
  case (Some g)
  then show ?thesis
    unfolding InitDecoder_def new_Session_def Let_def
    by (simp add: bind_proc_fprintf READ_fprintf print_debug_fprintf return_proc_def)
qed

lemma InitJoiner_events:
  "\<exists>evs. fst (InitJoiner files filename m) = NewSession filename (sess_opts_m m) # evs \<and>
     list_all is_fprintf evs"
proof (cases "files filename")
  case None
  then show ?thesis by (simp add: InitJoiner_def new_Session_def)
next
  case (Some g)
  then show ?thesis
    unfolding InitJoiner_def new_Session_def Let_def
    by (simp add: bind_proc_fprintf READ_fprintf print_debug_fprintf return_proc_def)
qed

lemma InitEncoder_Returns_iff:
  "snd (InitEncoder files filename m) = Returns m' \<longleftrightarrow>
     (\<exists>g v1 v2 v3 v4 v5.
        files filename = Some g \<and>
        positive_metadata (custom_metadata g) ''num_encoder_layers'' = Some v1 \<and>
        positive_metadata (custom_metadata g) ''T'' = Some v2 \<and>
        positive_metadata (custom_metadata g) ''decode_chunk_len'' = Some v3 \<and>
        positive_metadata (custom_metadata g) ''rnn_hidden_size'' = Some v4 \<and>
        positive_metadata (custom_metadata g) ''d_model'' = Some v5 \<and>
        m' = m\<lparr>encoder_sess_m :=
                  Some \<lparr>session_file = filename, session_options = sess_opts_m m,
                        session_model = g\<rparr>,
                encoder_input_names_m := input_names g,
                encoder_output_names_m := output_names g,
                num_encoder_layers_m := v1, T_m := v2, decode_chunk_len_m := v3,
                rnn_hidden_size_m := v4, d_model_m := v5\<rparr>)"
  unfolding InitEncoder_def Let_def
  by (cases "files filename")
    (auto simp: snd_bind_proc bind_outcome_Returns_iff READ_Returns_iff new_Session_def
      print_debug_Returns return_proc_def GetInputNames_def GetOutputNames_def)

lemma InitDecoder_Returns_iff:
  "snd (InitDecoder files filename m) = Returns m' \<longleftrightarrow>
     (\<exists>g v1 v2.
        files filename = Some g \<and>
        positive_metadata (custom_metadata g) ''vocab_size'' = Some v1 \<and>
        positive_metadata (custom_metadata g) ''context_size'' = Some v2 \<and>
        m' = m\<lparr>decoder_sess_m :=
                  Some \<lparr>session_file = filename, session_options = sess_opts_m m,
                        session_model = g\<rparr>,
                decoder_input_names_m := input_names g,
                decoder_output_names_m := output_names g,
                vocab_size_m := v1, context_size_m := v2\<rparr>)"
  unfolding InitDecoder_def Let_def
  by (cases "files filename")
    (auto simp: snd_bind_proc bind_outcome_Returns_iff READ_Returns_iff new_Session_def
      print_debug_Returns return_proc_def GetInputNames_def GetOutputNames_def)

lemma InitJoiner_Returns_iff:
  "snd (InitJoiner files filename m) = Returns m' \<longleftrightarrow>
     (\<exists>g. files filename = Some g \<and>
        m' = m\<lparr>joiner_sess_m :=
                  Some \<lparr>session_file = filename, session_options = sess_opts_m m,
                        session_model = g\<rparr>,
                joiner_input_names_m := input_names g,
                joiner_output_names_m := output_names g\<rparr>)"
  unfolding InitJoiner_def Let_def
  by (cases "files filename")
    (auto simp: snd_bind_proc bind_outcome_Returns_iff new_Session_def
      print_debug_Returns return_proc_def GetInputNames_def GetOutputNames_def)

lemma InitDecoder_without_vocab_size:
  assumes "files filename = Some g" and "custom_metadata g ''vocab_size'' = None"
  shows "snd (InitDecoder files filename m) = Exits (- 1)"
  using assms
  by (simp add: InitDecoder_def Let_def snd_bind_proc new_Session_def print_debug_Returns
      READ_missing_key)

subsection \<open>The constructor\<close>

lemma constructor_unfold:
  "OnlineLstmTransducerModel_new files config =
     bind_proc
       (InitEncoder files (encoder_filename config)
          ((initial_members config)\<lparr>sess_opts_m := thread_options config\<rparr>))
       (\<lambda>m3. bind_proc (InitDecoder files (decoder_filename config) m3)
          (\<lambda>m4. InitJoiner files (joiner_filename config) m4))"
  by (simp add: OnlineLstmTransducerModel_new_def Let_def thread_options_def
      SetIntraOpNumThreads_def SetInterOpNumThreads_def initial_members_def
      default_SessionOptions_def)

lemma configured_sess_opts:
  "sess_opts_m ((initial_members config)\<lparr>sess_opts_m := thread_options config\<rparr>) =
     thread_options config"
  by simp

lemma InitEncoder_sess_opts:
  "snd (InitEncoder files filename m) = Returns m' \<Longrightarrow> sess_opts_m m' = sess_opts_m m"
  by (auto simp: InitEncoder_Returns_iff)

lemma InitDecoder_sess_opts:
  "snd (InitDecoder files filename m) = Returns m' \<Longrightarrow> sess_opts_m m' = sess_opts_m m"
  by (auto simp: InitDecoder_Returns_iff)

lemma InitEncoder_opened_with:
  "opened_with (fst (InitEncoder files filename m)) = [(filename, sess_opts_m m)]"
  using InitEncoder_events [of files filename m] by (auto simp: opened_with_fprintf)

lemma InitDecoder_opened_with:
  "opened_with (fst (InitDecoder files filename m)) = [(filename, sess_opts_m m)]"
  using InitDecoder_events [of files filename m] by (auto simp: opened_with_fprintf)

lemma InitJoiner_opened_with:
  "opened_with (fst (InitJoiner files filename m)) = [(filename, sess_opts_m m)]"
  using InitJoiner_events [of files filename m] by (auto simp: opened_with_fprintf)

lemma InitEncoder_no_run: "filter is_run (fst (InitEncoder files filename m)) = []"
  using InitEncoder_events [of files filename m] by (auto simp: is_run_fprintf)

lemma InitDecoder_no_run: "filter is_run (fst (InitDecoder files filename m)) = []"
  using InitDecoder_events [of files filename m] by (auto simp: is_run_fprintf)

lemma InitJoiner_no_run: "filter is_run (fst (InitJoiner files filename m)) = []"
  using InitJoiner_events [of files filename m] by (auto simp: is_run_fprintf)

lemma constructor_no_run: "filter is_run (fst (OnlineLstmTransducerModel_new files config)) = []"
  by (simp add: constructor_unfold fst_bind_proc InitEncoder_no_run InitDecoder_no_run
      InitJoiner_no_run split: outcome.splits)

lemma constructor_Returns_iff:
  "snd (OnlineLstmTransducerModel_new files config) = Returns m \<longleftrightarrow>
     (\<exists>m3 m4.
        snd (InitEncoder files (encoder_filename config)
               ((initial_members config)\<lparr>sess_opts_m := thread_options config\<rparr>)) = Returns m3 \<and>
        snd (InitDecoder files (decoder_filename config) m3) = Returns m4 \<and>
        snd (InitJoiner files (joiner_filename config) m4) = Returns m)"
  by (simp add: constructor_unfold snd_bind_proc bind_outcome_Returns_iff)

lemma constructor_opened_with:
  "opened_with (fst (OnlineLstmTransducerModel_new files config)) =
     [(encoder_filename config, thread_options config)] \<or>
   opened_with (fst (OnlineLstmTransducerModel_new files config)) =
     [(encoder_filename config, thread_options config),
      (decoder_filename config, thread_options config)] \<or>
   opened_with (fst (OnlineLstmTransducerModel_new files config)) =
     [(encoder_filename config, thread_options config),
      (decoder_filename config, thread_options config),
      (joiner_filename config, thread_options config)]"
  by (auto simp: constructor_unfold fst_bind_proc opened_with_append InitEncoder_opened_with
      InitDecoder_opened_with InitJoiner_opened_with InitEncoder_sess_opts InitDecoder_sess_opts
      split: outcome.splits)

lemma constructor_opened_with_Returns:
  assumes "snd (OnlineLstmTransducerModel_new files config) = Returns m"
  shows "opened_with (fst (OnlineLstmTransducerModel_new files config)) =
       [(encoder_filename config, thread_options config),
        (decoder_filename config, thread_options config),
        (joiner_filename config, thread_options config)]"
proof -
  from assms obtain m3 m4 where
    e: "snd (InitEncoder files (encoder_filename config)
               ((initial_members config)\<lparr>sess_opts_m := thread_options config\<rparr>)) = Returns m3"
    and d: "snd (InitDecoder files (decoder_filename config) m3) = Returns m4"
    unfolding constructor_Returns_iff by blast
  have o3: "sess_opts_m m3 = thread_options config"
    using InitEncoder_sess_opts [OF e] by simp
  have o4: "sess_opts_m m4 = thread_options config"
    using InitDecoder_sess_opts [OF d] o3 by simp
  show ?thesis
    by (simp add: constructor_unfold fst_bind_proc opened_with_append InitEncoder_opened_with
        InitDecoder_opened_with InitJoiner_opened_with e d o3 o4)
qed

lemma constructor_sessions:
  assumes "snd (OnlineLstmTransducerModel_new files config) = Returns m"
  shows "\<exists>ge gd gj.
           encoder_sess_m m =
             Some \<lparr>session_file = encoder_filename config,
                   session_options = thread_options config, session_model = ge\<rparr> \<and>
           decoder_sess_m m =
             Some \<lparr>session_file = decoder_filename config,
                   session_options = thread_options config, session_model = gd\<rparr> \<and>
           joiner_sess_m m =
             Some \<lparr>session_file = joiner_filename config,
                   session_options = thread_options config, session_model = gj\<rparr> \<and>
           sess_opts_m m = thread_options config"
  using assms unfolding constructor_Returns_iff
  by (auto simp: InitEncoder_Returns_iff InitDecoder_Returns_iff InitJoiner_Returns_iff)

lemma constructor_succeeds:
  assumes "files (encoder_filename config) = Some ge"
    and "files (decoder_filename config) = Some gd"
    and "files (joiner_filename config) = Some gj"
    and "positive_metadata (custom_metadata ge) ''num_encoder_layers'' \<noteq> None"
    and "positive_metadata (custom_metadata ge) ''T'' \<noteq> None"
    and "positive_metadata (custom_metadata ge) ''decode_chunk_len'' \<noteq> None"
    and "positive_metadata (custom_metadata ge) ''rnn_hidden_size'' \<noteq> None"
    and "positive_metadata (custom_metadata ge) ''d_model'' \<noteq> None"
    and "positive_metadata (custom_metadata gd) ''vocab_size'' \<noteq> None"
    and "positive_metadata (custom_metadata gd) ''context_size'' \<noteq> None"
  shows "\<exists>m. snd (OnlineLstmTransducerModel_new files config) = Returns m"
  using assms
  by (auto simp: constructor_Returns_iff InitEncoder_Returns_iff InitDecoder_Returns_iff
      InitJoiner_Returns_iff)

lemma constructor_Returns_metadata:
  assumes "snd (OnlineLstmTransducerModel_new files config) = Returns m"
  shows "\<exists>ge gd.
           files (encoder_filename config) = Some ge \<and>
           files (decoder_filename config) = Some gd \<and>
           positive_metadata (custom_metadata ge) ''num_encoder_layers'' =
             Some (num_encoder_layers_m m) \<and>
           positive_metadata (custom_metadata ge) ''T'' = Some (T_m m) \<and>
           positive_metadata (custom_metadata ge) ''decode_chunk_len'' =
             Some (decode_chunk_len_m m) \<and>
           positive_metadata (custom_metadata ge) ''rnn_hidden_size'' =
             Some (rnn_hidden_size_m m) \<and>
           positive_metadata (custom_metadata ge) ''d_model'' = Some (d_model_m m) \<and>
           positive_metadata (custom_metadata gd) ''vocab_size'' = Some (vocab_size_m m) \<and>
           positive_metadata (custom_metadata gd) ''context_size'' = Some (context_size_m m)"
  using assms unfolding constructor_Returns_iff
  by (auto simp: InitEncoder_Returns_iff InitDecoder_Returns_iff InitJoiner_Returns_iff)

lemma constructor_without_vocab_size:
  assumes "files (decoder_filename config) = Some gd"
    and "custom_metadata gd ''vocab_size'' = None"
  shows "snd (OnlineLstmTransducerModel_new files config) \<noteq> Returns m"
proof
  assume "snd (OnlineLstmTransducerModel_new files config) = Returns m"
  from constructor_Returns_metadata [OF this] assms(1)
  have "positive_metadata (custom_metadata gd) ''vocab_size'' = Some (vocab_size_m m)"
    by auto
  with positive_metadata_missing [of "custom_metadata gd" "''vocab_size''", OF assms(2)] show False by simp
qed

lemma constructor_exits_without_vocab_size:
  assumes "files (encoder_filename config) = Some ge"
    and "positive_metadata (custom_metadata ge) ''num_encoder_layers'' \<noteq> None"
    and "positive_metadata (custom_metadata ge) ''T'' \<noteq> None"
    and "positive_metadata (custom_metadata ge) ''decode_chunk_len'' \<noteq> None"
    and "positive_metadata (custom_metadata ge) ''rnn_hidden_size'' \<noteq> None"
    and "positive_metadata (custom_metadata ge) ''d_model'' \<noteq> None"
    and "files (decoder_filename config) = Some gd"
    and "custom_metadata gd ''vocab_size'' = None"
  shows "snd (OnlineLstmTransducerModel_new files config) = Exits (- 1) \<and>
         map fst (opened_with (fst (OnlineLstmTransducerModel_new files config))) =
           [encoder_filename config, decoder_filename config]"
proof -
  from assms(1-6) obtain m3 where
    e: "snd (InitEncoder files (encoder_filename config)
               ((initial_members config)\<lparr>sess_opts_m := thread_options config\<rparr>)) = Returns m3"
    by (auto simp: InitEncoder_Returns_iff)
  have d: "snd (InitDecoder files (decoder_filename config) m3) = Exits (- 1)"
    using assms(7,8) by (rule InitDecoder_without_vocab_size [of files _ gd])
  show ?thesis
    by (simp add: constructor_unfold snd_bind_proc fst_bind_proc opened_with_append e d
        InitEncoder_opened_with InitDecoder_opened_with)
qed

text \<open>
  Claim C6. A model is constructed only if the encoder file gives \<open>num_encoder_layers\<close>,
  \<open>T\<close>, \<open>decode_chunk_len\<close>, \<open>rnn_hidden_size\<close> and \<open>d_model\<close>, and the decoder file gives
  \<open>vocab_size\<close> and \<open>context_size\<close>, each read as a positive integer, which is the value
  the model stores. No other key is needed: when the three files load and these seven
  keys are positive, a model is constructed. When the decoder's metadata lacks
  \<open>vocab_size\<close>, no model is constructed and the constructor has run no graph; and if
  the encoder was initialised, the process exits with status -1 after opening the
  encoder and the decoder only.
\<close>

theorem constructor_requires_metadata:
  "(\<forall>m. snd (OnlineLstmTransducerModel_new files config) = Returns m \<longrightarrow>
      (\<exists>ge gd.
         files (encoder_filename config) = Some ge \<and>
         files (decoder_filename config) = Some gd \<and>
         positive_metadata (custom_metadata ge) ''num_encoder_layers'' =
           Some (num_encoder_layers_m m) \<and>
         positive_metadata (custom_metadata ge) ''T'' = Some (T_m m) \<and>
         positive_metadata (custom_metadata ge) ''decode_chunk_len'' =
           Some (decode_chunk_len_m m) \<and>
         positive_metadata (custom_metadata ge) ''rnn_hidden_size'' =
           Some (rnn_hidden_size_m m) \<and>
         positive_metadata (custom_metadata ge) ''d_model'' = Some (d_model_m m) \<and>
         positive_metadata (custom_metadata gd) ''vocab_size'' = Some (vocab_size_m m) \<and>
         positive_metadata (custom_metadata gd) ''context_size'' = Some (context_size_m m))) \<and>
   (\<forall>ge gd gj.
      files (encoder_filename config) = Some ge \<and>
      files (decoder_filename config) = Some gd \<and>
      files (joiner_filename config) = Some gj \<and>
      positive_metadata (custom_metadata ge) ''num_encoder_layers'' \<noteq> None \<and>
      positive_metadata (custom_metadata ge) ''T'' \<noteq> None \<and>
      positive_metadata (custom_metadata ge) ''decode_chunk_len'' \<noteq> None \<and>
      positive_metadata (custom_metadata ge) ''rnn_hidden_size'' \<noteq> None \<and>
      positive_metadata (custom_metadata ge) ''d_model'' \<noteq> None \<and>
      positive_metadata (custom_metadata gd) ''vocab_size'' \<noteq> None \<and>
      positive_metadata (custom_metadata gd) ''context_size'' \<noteq> None \<longrightarrow>
      (\<exists>m. snd (OnlineLstmTransducerModel_new files config) = Returns m)) \<and>
   (\<forall>gd.
      files (decoder_filename config) = Some gd \<and> custom_metadata gd ''vocab_size'' = None \<longrightarrow>
      (\<forall>m. snd (OnlineLstmTransducerModel_new files config) \<noteq> Returns m) \<and>
      filter is_run (fst (OnlineLstmTransducerModel_new files config)) = [] \<and>
      (\<forall>ge.
         files (encoder_filename config) = Some ge \<and>
         positive_metadata (custom_metadata ge) ''num_encoder_layers'' \<noteq> None \<and>
         positive_metadata (custom_metadata ge) ''T'' \<noteq> None \<and>
         positive_metadata (custom_metadata ge) ''decode_chunk_len'' \<noteq> None \<and>
         positive_metadata (custom_metadata ge) ''rnn_hidden_size'' \<noteq> None \<and>
         positive_metadata (custom_metadata ge) ''d_model'' \<noteq> None \<longrightarrow>
         snd (OnlineLstmTransducerModel_new files config) = Exits (- 1) \<and>
         map fst (opened_with (fst (OnlineLstmTransducerModel_new files config))) =
           [encoder_filename config, decoder_filename config]))"
proof (intro conjI allI impI)
  fix m
  assume "snd (OnlineLstmTransducerModel_new files config) = Returns m"
  then show "\<exists>ge gd.
         files (encoder_filename config) = Some ge \<and>
         files (decoder_filename config) = Some gd \<and>
         positive_metadata (custom_metadata ge) ''num_encoder_layers'' =
           Some (num_encoder_layers_m m) \<and>
         positive_metadata (custom_metadata ge) ''T'' = Some (T_m m) \<and>
         positive_metadata (custom_metadata ge) ''decode_chunk_len'' =
           Some (decode_chunk_len_m m) \<and>
         positive_metadata (custom_metadata ge) ''rnn_hidden_size'' =
           Some (rnn_hidden_size_m m) \<and>
         positive_metadata (custom_metadata ge) ''d_model'' = Some (d_model_m m) \<and>
         positive_metadata (custom_metadata gd) ''vocab_size'' = Some (vocab_size_m m) \<and>
         positive_metadata (custom_metadata gd) ''context_size'' = Some (context_size_m m)"
    by (rule constructor_Returns_metadata)
next
  fix ge gd gj
  assume "files (encoder_filename config) = Some ge \<and>
      files (decoder_filename config) = Some gd \<and>
      files (joiner_filename config) = Some gj \<and>
      positive_metadata (custom_metadata ge) ''num_encoder_layers'' \<noteq> None \<and>
      positive_metadata (custom_metadata ge) ''T'' \<noteq> None \<and>
      positive_metadata (custom_metadata ge) ''decode_chunk_len'' \<noteq> None \<and>
      positive_metadata (custom_metadata ge) ''rnn_hidden_size'' \<noteq> None \<and>
      positive_metadata (custom_metadata ge) ''d_model'' \<noteq> None \<and>
      positive_metadata (custom_metadata gd) ''vocab_size'' \<noteq> None \<and>
      positive_metadata (custom_metadata gd) ''context_size'' \<noteq> None"
  then show "\<exists>m. snd (OnlineLstmTransducerModel_new files config) = Returns m"
    by (intro constructor_succeeds [of files config ge gd gj]) simp_all
next
  fix gd m
  assume "files (decoder_filename config) = Some gd \<and> custom_metadata gd ''vocab_size'' = None"
  then show "snd (OnlineLstmTransducerModel_new files config) \<noteq> Returns m"
    using constructor_without_vocab_size [of files config gd m] by simp
next
  show "filter is_run (fst (OnlineLstmTransducerModel_new files config)) = []"
    by (rule constructor_no_run)
next
  fix gd ge
  assume d: "files (decoder_filename config) = Some gd \<and> custom_metadata gd ''vocab_size'' = None"
    and e: "files (encoder_filename config) = Some ge \<and>
         positive_metadata (custom_metadata ge) ''num_encoder_layers'' \<noteq> None \<and>
         positive_metadata (custom_metadata ge) ''T'' \<noteq> None \<and>
         positive_metadata (custom_metadata ge) ''decode_chunk_len'' \<noteq> None \<and>
         positive_metadata (custom_metadata ge) ''rnn_hidden_size'' \<noteq> None \<and>
         positive_metadata (custom_metadata ge) ''d_model'' \<noteq> None"
  have r: "snd (OnlineLstmTransducerModel_new files config) = Exits (- 1) \<and>
         map fst (opened_with (fst (OnlineLstmTransducerModel_new files config))) =
           [encoder_filename config, decoder_filename config]"
    using d e by (intro constructor_exits_without_vocab_size [of files config ge gd]) simp_all
  from r show "snd (OnlineLstmTransducerModel_new files config) = Exits (- 1)" ..
  from r show "map fst (opened_with (fst (OnlineLstmTransducerModel_new files config))) =
           [encoder_filename config, decoder_filename config]" ..
qed

lemma example_files_load:
  "example_files (encoder_filename example_config) = Some example_encoder"
  "example_files (decoder_filename example_config) = Some example_decoder"
  "example_files (joiner_filename example_config) = Some example_joiner"
  "files_without_vocab_size (encoder_filename example_config) = Some example_encoder"
  "files_without_vocab_size (decoder_filename example_config) = Some decoder_without_vocab_size"
  by (simp_all add: example_files_def files_without_vocab_size_def example_config_def)

lemma example_encoder_metadata:
  "positive_metadata (custom_metadata example_encoder) ''num_encoder_layers'' = Some 3"
  "positive_metadata (custom_metadata example_encoder) ''T'' = Some 9"
  "positive_metadata (custom_metadata example_encoder) ''decode_chunk_len'' = Some 4"
  "positive_metadata (custom_metadata example_encoder) ''rnn_hidden_size'' = Some 8"
  "positive_metadata (custom_metadata example_encoder) ''d_model'' = Some 4"
  by (simp_all add: positive_metadata_def example_encoder_def atoi_def isspace_def isdigit_def
      digit_value_def INT_MAX_def INT_MIN_def)

lemma example_decoder_metadata:
  "positive_metadata (custom_metadata example_decoder) ''vocab_size'' = Some 500"
  "positive_metadata (custom_metadata example_decoder) ''context_size'' = Some 2"
  "custom_metadata decoder_without_vocab_size ''vocab_size'' = None"
  by (simp_all add: positive_metadata_def example_decoder_def decoder_without_vocab_size_def
      atoi_def isspace_def isdigit_def digit_value_def INT_MAX_def INT_MIN_def)

lemma example_constructed:
  "\<exists>m. snd (OnlineLstmTransducerModel_new example_files example_config) = Returns m"
  by (rule constructor_succeeds [OF example_files_load(1-3)])
    (simp_all add: example_encoder_metadata example_decoder_metadata)

theorem constructor_requires_metadata_witness:
  "(\<exists>m. snd (OnlineLstmTransducerModel_new example_files example_config) = Returns m \<and>
        num_encoder_layers_m m = 3 \<and> T_m m = 9 \<and> decode_chunk_len_m m = 4 \<and>
        rnn_hidden_size_m m = 8 \<and> d_model_m m = 4 \<and> vocab_size_m m = 500 \<and>
        context_size_m m = 2) \<and>
   snd (OnlineLstmTransducerModel_new files_without_vocab_size example_config) = Exits (- 1) \<and>
   filter is_run (fst (OnlineLstmTransducerModel_new files_without_vocab_size example_config)) = [] \<and>
   map fst (opened_with (fst (OnlineLstmTransducerModel_new files_without_vocab_size example_config))) =
     [''encoder.onnx'', ''decoder.onnx'']"
proof -
  note t = constructor_requires_metadata [of example_files example_config]
  note u = constructor_requires_metadata [of files_without_vocab_size example_config]
  have "example_files (encoder_filename example_config) = Some example_encoder \<and>
      example_files (decoder_filename example_config) = Some example_decoder \<and>
      example_files (joiner_filename example_config) = Some example_joiner \<and>
      positive_metadata (custom_metadata example_encoder) ''num_encoder_layers'' \<noteq> None \<and>
      positive_metadata (custom_metadata example_encoder) ''T'' \<noteq> None \<and>
      positive_metadata (custom_metadata example_encoder) ''decode_chunk_len'' \<noteq> None \<and>
      positive_metadata (custom_metadata example_encoder) ''rnn_hidden_size'' \<noteq> None \<and>
      positive_metadata (custom_metadata example_encoder) ''d_model'' \<noteq> None \<and>
      positive_metadata (custom_metadata example_decoder) ''vocab_size'' \<noteq> None \<and>
      positive_metadata (custom_metadata example_decoder) ''context_size'' \<noteq> None"
    by (simp add: example_files_load example_encoder_metadata example_decoder_metadata)
  from t [THEN conjunct2, THEN conjunct1, rule_format, OF this]
  obtain m where m: "snd (OnlineLstmTransducerModel_new example_files example_config) = Returns m"
    by blast
  from t [THEN conjunct1, rule_format, OF m]
  have fields: "num_encoder_layers_m m = 3 \<and> T_m m = 9 \<and> decode_chunk_len_m m = 4 \<and>
      rnn_hidden_size_m m = 8 \<and> d_model_m m = 4 \<and> vocab_size_m m = 500 \<and> context_size_m m = 2"
    by (auto simp: example_files_load example_encoder_metadata example_decoder_metadata)
  have d: "files_without_vocab_size (decoder_filename example_config) =
        Some decoder_without_vocab_size \<and>
      custom_metadata decoder_without_vocab_size ''vocab_size'' = None"
    by (simp add: example_files_load example_decoder_metadata)
  have e: "files_without_vocab_size (encoder_filename example_config) = Some example_encoder \<and>
      positive_metadata (custom_metadata example_encoder) ''num_encoder_layers'' \<noteq> None \<and>
      positive_metadata (custom_metadata example_encoder) ''T'' \<noteq> None \<and>
      positive_metadata (custom_metadata example_encoder) ''decode_chunk_len'' \<noteq> None \<and>
      positive_metadata (custom_metadata example_encoder) ''rnn_hidden_size'' \<noteq> None \<and>
      positive_metadata (custom_metadata example_encoder) ''d_model'' \<noteq> None"
    by (simp add: example_files_load example_encoder_metadata)
  note v = u [THEN conjunct2, THEN conjunct2, rule_format, OF d]
  have run: "filter is_run
      (fst (OnlineLstmTransducerModel_new files_without_vocab_size example_config)) = []"
    using v by blast
  have ex: "snd (OnlineLstmTransducerModel_new files_without_vocab_size example_config) =
        Exits (- 1) \<and>
      map fst (opened_with
        (fst (OnlineLstmTransducerModel_new files_without_vocab_size example_config))) =
        [encoder_filename example_config, decoder_filename example_config]"
    using v [THEN conjunct2, THEN conjunct2, rule_format, OF e] .
  have names: "encoder_filename example_config = ''encoder.onnx''"
    "decoder_filename example_config = ''decoder.onnx''"
    by (simp_all add: example_config_def)
  from m fields run ex show ?thesis
    unfolding names by blast
qed

text \<open>
  Claim C8. For every configuration and every set of files, \<open>thread_options\<close> holds the
  configured thread count as the intra-op and as the inter-op count, every session the
  constructor opens is opened with these options, and when the constructor returns it
  has opened the encoder, the decoder and the joiner, in this order, and the three
  sessions of the model carry these options.
\<close>

theorem constructor_applies_thread_count:
  "intra_op_num_threads (thread_options config) = num_threads config \<and>
   inter_op_num_threads (thread_options config) = num_threads config \<and>
   map snd (opened_with (fst (OnlineLstmTransducerModel_new files config))) =
     replicate (length (opened_with (fst (OnlineLstmTransducerModel_new files config))))
       (thread_options config) \<and>
   (\<forall>m. snd (OnlineLstmTransducerModel_new files config) = Returns m \<longrightarrow>
      opened_with (fst (OnlineLstmTransducerModel_new files config)) =
        [(encoder_filename config, thread_options config),
         (decoder_filename config, thread_options config),
         (joiner_filename config, thread_options config)] \<and>
      map_option session_options (encoder_sess_m m) = Some (thread_options config) \<and>
      map_option session_options (decoder_sess_m m) = Some (thread_options config) \<and>
      map_option session_options (joiner_sess_m m) = Some (thread_options config))"
proof (intro conjI allI impI)
  show "intra_op_num_threads (thread_options config) = num_threads config"
    by (simp add: thread_options_def)
  show "inter_op_num_threads (thread_options config) = num_threads config"
    by (simp add: thread_options_def)
  show "map snd (opened_with (fst (OnlineLstmTransducerModel_new files config))) =
     replicate (length (opened_with (fst (OnlineLstmTransducerModel_new files config))))
       (thread_options config)"
    using constructor_opened_with [of files config]
    by (elim disjE) (simp_all add: numeral_3_eq_3 numeral_2_eq_2)
next
  fix m
  assume m: "snd (OnlineLstmTransducerModel_new files config) = Returns m"
  show "opened_with (fst (OnlineLstmTransducerModel_new files config)) =
        [(encoder_filename config, thread_options config),
         (decoder_filename config, thread_options config),
         (joiner_filename config, thread_options config)]"
    using m by (rule constructor_opened_with_Returns)
  from constructor_sessions [OF m]
  show "map_option session_options (encoder_sess_m m) = Some (thread_options config)"
    and "map_option session_options (decoder_sess_m m) = Some (thread_options config)"
    and "map_option session_options (joiner_sess_m m) = Some (thread_options config)"
    by auto
qed

theorem constructor_applies_thread_count_witness:
  "num_threads example_config = 2 \<and>
   opened_with (fst (OnlineLstmTransducerModel_new example_files example_config)) =
     [(''encoder.onnx'', \<lparr>intra_op_num_threads = 2, inter_op_num_threads = 2\<rparr>),
      (''decoder.onnx'', \<lparr>intra_op_num_threads = 2, inter_op_num_threads = 2\<rparr>),
      (''joiner.onnx'', \<lparr>intra_op_num_threads = 2, inter_op_num_threads = 2\<rparr>)]"
proof -
  from example_constructed obtain m where
    m: "snd (OnlineLstmTransducerModel_new example_files example_config) = Returns m" ..
  have "opened_with (fst (OnlineLstmTransducerModel_new example_files example_config)) =
        [(encoder_filename example_config, thread_options example_config),
         (decoder_filename example_config, thread_options example_config),
         (joiner_filename example_config, thread_options example_config)]"
    using constructor_applies_thread_count [of example_config example_files] m by blast
  then show ?thesis
    by (simp add: example_config_def thread_options_def)
qed

section \<open>Initial states of a constructed model\<close>

lemma wide_files_load:
  "wide_files (encoder_filename example_config) = Some wide_encoder"
  "wide_files (decoder_filename example_config) = Some example_decoder"
  "wide_files (joiner_filename example_config) = Some example_joiner"
  by (simp_all add: wide_files_def example_config_def)

lemma wide_encoder_metadata:
  "positive_metadata (custom_metadata wide_encoder) ''num_encoder_layers'' = Some 65536"
  "positive_metadata (custom_metadata wide_encoder) ''T'' = Some 9"
  "positive_metadata (custom_metadata wide_encoder) ''decode_chunk_len'' = Some 4"
  "positive_metadata (custom_metadata wide_encoder) ''rnn_hidden_size'' = Some 8"
  "positive_metadata (custom_metadata wide_encoder) ''d_model'' = Some 65536"
  by (simp_all add: positive_metadata_def wide_encoder_def atoi_def isspace_def isdigit_def
      digit_value_def INT_MAX_def INT_MIN_def)

text \<open>
  Claim C3 asks for two zero-filled tensors for all positive dimensions. That holds
  while the element counts fit an \<open>int\<close> (\<open>GetEncoderInitStates_in_range\<close>). A model
  file with \<open>num_encoder_layers = 65536\<close> and \<open>d_model = 65536\<close> is accepted by the
  constructor, and for the model it constructs the number of elements to fill,
  computed in \<open>int\<close>, overflows: the call has no defined result.
\<close>

theorem GetEncoderInitStates_wide_model:
  "\<exists>m. snd (OnlineLstmTransducerModel_new wide_files example_config) = Returns m \<and>
       num_encoder_layers_m m = 65536 \<and> d_model_m m = 65536 \<and>
       GetEncoderInitStates m = Undefined"
proof -
  have "\<exists>m. snd (OnlineLstmTransducerModel_new wide_files example_config) = Returns m"
    by (rule constructor_succeeds [OF wide_files_load])
      (simp_all add: wide_encoder_metadata example_decoder_metadata)
  then obtain m where
    m: "snd (OnlineLstmTransducerModel_new wide_files example_config) = Returns m" ..
  from constructor_Returns_metadata [OF m]
  have dims: "num_encoder_layers_m m = 65536" "d_model_m m = 65536"
    by (auto simp: wide_files_load wide_encoder_metadata)
  have "GetEncoderInitStates m = Undefined"
    by (rule GetEncoderInitStates_overflow)
      (simp_all add: dims stored_dimension_def INT_MAX_def)
  with m dims show ?thesis by blast
qed

end
